theory Spec2Isabelle
  imports Complex_Main
begin

section \<open>Project filter of the worker utilities\<close>

text \<open>
  The settings file holds two comma separated lists. Each getter caches the list it
  parsed in a module variable; \<open>clearPortCache\<close> resets the variables. A setting that is
  absent is \<open>None\<close>. \<open>String.prototype.trim\<close> is a library function and is taken as a
  parameter.
\<close>

record settingsFile =
  CLAUDE_MEM_ALLOWED_PROJECTS_ONLY :: "string option"
  CLAUDE_MEM_IGNORED_PROJECTS :: "string option"

record utilsState =
  settingsOnDisk :: settingsFile
  cachedAllowedProjectsOnly :: "string list option"
  cachedIgnoredProjects :: "string list option"

text \<open>\<open>s.split(',')\<close>: the empty string splits into one empty piece.\<close>

fun splitOn :: "char \<Rightarrow> string \<Rightarrow> string list" where
  "splitOn c [] = [[]]"
| "splitOn c (x # xs) =
     (if x = c then [] # splitOn c xs
      else (case splitOn c xs of
              [] \<Rightarrow> [[x]]
            | w # ws \<Rightarrow> (x # w) # ws))"

text \<open>\<open>(setting || '').split(',').map(p => p.trim()).filter(p => p.length > 0)\<close>\<close>

definition parseProjectList :: "(string \<Rightarrow> string) \<Rightarrow> string option \<Rightarrow> string list" where
  "parseProjectList trim setting =
     filter (\<lambda>p. length p > 0)
       (map trim (splitOn CHR '','' (case setting of None \<Rightarrow> [] | Some s \<Rightarrow> s)))"

definition getIgnoredProjects :: "(string \<Rightarrow> string) \<Rightarrow> utilsState \<Rightarrow> string list \<times> utilsState" where
  "getIgnoredProjects trim st =
     (case cachedIgnoredProjects st of
        Some cached \<Rightarrow> (cached, st)
      | None \<Rightarrow>
          (let parsed = parseProjectList trim (CLAUDE_MEM_IGNORED_PROJECTS (settingsOnDisk st))
           in (parsed, st\<lparr>cachedIgnoredProjects := Some parsed\<rparr>)))"

definition getAllowedProjectsOnly :: "(string \<Rightarrow> string) \<Rightarrow> utilsState \<Rightarrow> string list \<times> utilsState" where
  "getAllowedProjectsOnly trim st =
     (case cachedAllowedProjectsOnly st of
        Some cached \<Rightarrow> (cached, st)
      | None \<Rightarrow>
          (let parsed = parseProjectList trim (CLAUDE_MEM_ALLOWED_PROJECTS_ONLY (settingsOnDisk st))
           in (parsed, st\<lparr>cachedAllowedProjectsOnly := Some parsed\<rparr>)))"

text \<open>\<open>xs.some(name => ys.includes(name))\<close>\<close>

definition someIncluded :: "string list \<Rightarrow> string list \<Rightarrow> bool" where
  "someIncluded names ys = list_ex (\<lambda>name. name \<in> set ys) names"

definition isProjectIgnored :: "(string \<Rightarrow> string) \<Rightarrow> utilsState \<Rightarrow> string list \<Rightarrow> bool \<times> utilsState" where
  "isProjectIgnored trim st projectNames =
     (let (allowedOnly, st1) = getAllowedProjectsOnly trim st;
          (ignored, st2) = getIgnoredProjects trim st1
      in if length allowedOnly > 0 then (\<not> someIncluded projectNames allowedOnly, st2)
         else if length ignored > 0 then (someIncluded projectNames ignored, st2)
         else (False, st2))"

text \<open>The two lists a call of \<open>isProjectIgnored\<close> works with, in a given state.\<close>

definition whitelistOf :: "(string \<Rightarrow> string) \<Rightarrow> utilsState \<Rightarrow> string list" where
  "whitelistOf trim st = fst (getAllowedProjectsOnly trim st)"

definition blacklistOf :: "(string \<Rightarrow> string) \<Rightarrow> utilsState \<Rightarrow> string list" where
  "blacklistOf trim st = fst (getIgnoredProjects trim st)"


section \<open>Gemini agent: context window\<close>

text \<open>A string is the list of its code units, so that \<open>length\<close> is \<open>text.length\<close>.\<close>

record ConversationMessage =
  role :: string
  content :: string

text \<open>
  The numeric settings are read with \<open>parseInt(setting) || DEFAULT\<close>. The value of
  \<open>parseInt\<close> is an integer or NaN (\<open>None\<close>); NaN and 0 are falsy and give the default,
  every other integer, a negative one too, is used as it is.
\<close>

record geminiSettings =
  CLAUDE_MEM_GEMINI_MAX_CONTEXT_MESSAGES :: "int option"
  CLAUDE_MEM_GEMINI_MAX_TOKENS :: "int option"
  CLAUDE_MEM_GEMINI_RETRY_MAX_ATTEMPTS :: "int option"
  CLAUDE_MEM_GEMINI_RETRY_BASE_DELAY_MS :: "int option"

definition orDefault :: "int option \<Rightarrow> int \<Rightarrow> int" where
  "orDefault parsed d = (case parsed of None \<Rightarrow> d | Some n \<Rightarrow> if n = 0 then d else n)"

definition DEFAULT_GEMINI_MAX_CONTEXT_MESSAGES :: int where
  "DEFAULT_GEMINI_MAX_CONTEXT_MESSAGES = 20"

definition DEFAULT_GEMINI_MAX_ESTIMATED_TOKENS :: int where
  "DEFAULT_GEMINI_MAX_ESTIMATED_TOKENS = 100000"

definition CHARS_PER_TOKEN_ESTIMATE :: int where
  "CHARS_PER_TOKEN_ESTIMATE = 4"

definition DEFAULT_RETRY_MAX_ATTEMPTS :: int where
  "DEFAULT_RETRY_MAX_ATTEMPTS = 5"

definition DEFAULT_RETRY_BASE_DELAY_MS :: int where
  "DEFAULT_RETRY_BASE_DELAY_MS = 5000"

definition maxContextMessages :: "geminiSettings \<Rightarrow> int" where
  "maxContextMessages settings =
     orDefault (CLAUDE_MEM_GEMINI_MAX_CONTEXT_MESSAGES settings) DEFAULT_GEMINI_MAX_CONTEXT_MESSAGES"

definition maxEstimatedTokens :: "geminiSettings \<Rightarrow> int" where
  "maxEstimatedTokens settings =
     orDefault (CLAUDE_MEM_GEMINI_MAX_TOKENS settings) DEFAULT_GEMINI_MAX_ESTIMATED_TOKENS"

text \<open>\<open>Math.ceil(text.length / CHARS_PER_TOKEN_ESTIMATE)\<close>\<close>

definition estimateTokens :: "string \<Rightarrow> int" where
  "estimateTokens text = \<lceil>real (length text) / real_of_int CHARS_PER_TOKEN_ESTIMATE\<rceil>"

text \<open>\<open>history.reduce((sum, m) => sum + this.estimateTokens(m.content), 0)\<close>\<close>

definition totalTokens :: "ConversationMessage list \<Rightarrow> int" where
  "totalTokens history = foldl (\<lambda>sum m. sum + estimateTokens (content m)) 0 history"

text \<open>
  The sliding window loop \<open>for (let i = history.length - 1; i >= 0; i--)\<close>. The counter
  of the model is \<open>i + 1\<close>, so that \<open>0\<close> is the exit of the loop; \<open>break\<close> returns
  what was collected. \<open>history\<close> is only read: the loop writes to the new array
  \<open>truncated\<close> and to \<open>tokenCount\<close>.
\<close>

fun truncateLoop ::
  "int \<Rightarrow> int \<Rightarrow> ConversationMessage list \<Rightarrow> nat \<Rightarrow> ConversationMessage list \<Rightarrow> int
     \<Rightarrow> ConversationMessage list" where
  "truncateLoop maxMessages maxTokens history 0 truncated tokenCount = truncated"
| "truncateLoop maxMessages maxTokens history (Suc i) truncated tokenCount =
     (let msg = history ! i;
          msgTokens = estimateTokens (content msg)
      in if int (length truncated) \<ge> maxMessages \<or> tokenCount + msgTokens > maxTokens
         then truncated
         else truncateLoop maxMessages maxTokens history i (msg # truncated) (tokenCount + msgTokens))"

definition truncateHistory :: "geminiSettings \<Rightarrow> ConversationMessage list \<Rightarrow> ConversationMessage list" where
  "truncateHistory settings history =
     (let MAX_CONTEXT_MESSAGES = maxContextMessages settings;
          MAX_ESTIMATED_TOKENS = maxEstimatedTokens settings
      in if int (length history) \<le> MAX_CONTEXT_MESSAGES \<and> totalTokens history \<le> MAX_ESTIMATED_TOKENS
         then history
         else truncateLoop MAX_CONTEXT_MESSAGES MAX_ESTIMATED_TOKENS history (length history) [] 0)"


section \<open>Gemini agent: errors and their classification\<close>

text \<open>
  A thrown JavaScript value: an \<open>Error\<close> object with its \<open>name\<close> and \<open>message\<close>, or a value
  that is not an instance of \<open>Error\<close> (given by its \<open>String(...)\<close> form).
\<close>

datatype thrown = JsError (errorName: string) (errorMessage: string) | NonError string

text \<open>\<open>String.prototype.toLowerCase\<close> on the ASCII letters, which is all the patterns below use.\<close>

definition toLowerChar :: "char \<Rightarrow> char" where
  "toLowerChar c =
     (case map_of (zip ''ABCDEFGHIJKLMNOPQRSTUVWXYZ'' ''abcdefghijklmnopqrstuvwxyz'') c of
        Some l \<Rightarrow> l
      | None \<Rightarrow> c)"

definition toLowerCase :: "string \<Rightarrow> string" where
  "toLowerCase s = map toLowerChar s"

fun startsWith :: "string \<Rightarrow> string \<Rightarrow> bool" where
  "startsWith s [] = True"
| "startsWith [] (p # ps) = False"
| "startsWith (c # cs) (p # ps) = (c = p \<and> startsWith cs ps)"

text \<open>\<open>s.includes(pattern)\<close>\<close>

fun strIncludes :: "string \<Rightarrow> string \<Rightarrow> bool" where
  "strIncludes [] pattern = (pattern = [])"
| "strIncludes (c # cs) pattern = (startsWith (c # cs) pattern \<or> strIncludes cs pattern)"

definition isRateLimitError :: "thrown \<Rightarrow> bool" where
  "isRateLimitError error =
     (case error of
        JsError n m \<Rightarrow>
          (let msg = toLowerCase m
           in strIncludes msg ''429'' \<or> strIncludes msg ''rate limit''
              \<or> strIncludes msg ''resource_exhausted'' \<or> strIncludes msg ''quota exceeded'')
      | NonError v \<Rightarrow> False)"

text \<open>The decimal form of a number, as a template literal prints \<open>response.status\<close>.\<close>

definition digitChar :: "nat \<Rightarrow> char" where
  "digitChar d = ''0123456789'' ! d"

function decimal :: "nat \<Rightarrow> string" where
  "decimal n = (if n < 10 then [digitChar n] else decimal (n div 10) @ [digitChar (n mod 10)])"
  by pat_completeness auto
termination
  by (relation "measure (\<lambda>n. n)") auto

declare decimal.simps [simp del]

text \<open>\<open>new Error(`Gemini API error: ${response.status} - ${errorText}`)\<close>\<close>

definition apiError :: "nat \<Rightarrow> string \<Rightarrow> thrown" where
  "apiError status errorText =
     JsError ''Error'' (''Gemini API error: '' @ decimal status @ '' - '' @ errorText)"


section \<open>Gemini agent: retry delays\<close>

text \<open>
  Delays are JavaScript numbers. They are modelled as real numbers (rounding of the
  floating point operations is left out) or NaN.
\<close>

datatype jsNumber = NaN | Num real

text \<open>
  \<open>calculateBackoffDelay\<close>; the value of \<open>Math.random()\<close>, a number in \<open>[0, 1)\<close>, is the
  first argument.
\<close>

definition calculateBackoffDelay :: "real \<Rightarrow> nat \<Rightarrow> int \<Rightarrow> real" where
  "calculateBackoffDelay rnd attempt baseDelayMs =
     (let exponentialDelay = real_of_int baseDelayMs * 2 ^ attempt;
          jitter = exponentialDelay * (0.1 + rnd * 0.1)
      in min (exponentialDelay + jitter) 60000)"

text \<open>A value of \<open>JSON.parse\<close>; the members of an object are looked up by key.\<close>

datatype json =
    JNull
  | JBool bool
  | JNum real
  | JStr string
  | JArr "json list"
  | JObj "(string \<times> json) list"

text \<open>
  \<open>value?.key\<close>: \<open>None\<close> is \<open>undefined\<close>. Only an object parsed from JSON has a member
  of the keys used here; \<open>null?.key\<close> is \<open>undefined\<close>.
\<close>

fun optionalMember :: "json option \<Rightarrow> string \<Rightarrow> json option" where
  "optionalMember (Some (JObj members)) key = map_of members key"
| "optionalMember v key = None"

text \<open>Truthiness of a value, for \<open>details || []\<close>.\<close>

fun truthy :: "json option \<Rightarrow> bool" where
  "truthy None = False"
| "truthy (Some JNull) = False"
| "truthy (Some (JBool b)) = b"
| "truthy (Some (JNum x)) = (x \<noteq> 0)"
| "truthy (Some (JStr s)) = (s \<noteq> [])"
| "truthy (Some (JArr xs)) = True"
| "truthy (Some (JObj ms)) = True"

definition isDigit :: "char \<Rightarrow> bool" where
  "isDigit c = (c \<in> set ''0123456789'')"

text \<open>
  The regular expression of \<open>retryDelay.match\<close>: one or more characters that are digits
  or dots, then \<open>s\<close>, anchored at both ends. The result is the captured group.
\<close>

definition matchRetryDelay :: "string \<Rightarrow> string option" where
  "matchRetryDelay retryDelay =
     (if retryDelay \<noteq> [] \<and> last retryDelay = CHR ''s''
         \<and> butlast retryDelay \<noteq> []
         \<and> list_all (\<lambda>c. isDigit c \<or> c = CHR ''.'') (butlast retryDelay)
      then Some (butlast retryDelay) else None)"

definition digitValue :: "char \<Rightarrow> nat" where
  "digitValue c = (case map_of (zip ''0123456789'' [0, 1, 2, 3, 4, 5, 6, 7, 8, 9]) c of Some d \<Rightarrow> d | None \<Rightarrow> 0)"

definition digitsValue :: "string \<Rightarrow> nat" where
  "digitsValue ds = foldl (\<lambda>acc c. 10 * acc + digitValue c) 0 ds"

text \<open>
  \<open>parseFloat\<close> on a string of digits and dots: the longest prefix that is a decimal
  literal (digits, then at most one dot with digits) is read; without any digit there
  the result is NaN.
\<close>

definition parseFloat :: "string \<Rightarrow> jsNumber" where
  "parseFloat s =
     (let intDigits = takeWhile isDigit s;
          rest = dropWhile isDigit s;
          fracDigits = (case rest of c # cs \<Rightarrow> if c = CHR ''.'' then takeWhile isDigit cs else [] | [] \<Rightarrow> [])
      in if intDigits = [] \<and> fracDigits = [] then NaN
         else Num (real (digitsValue intDigits) + real (digitsValue fracDigits) / 10 ^ length fracDigits))"

text \<open>\<open>Math.ceil(parseFloat(match[1]) * 1000) + 1000\<close>\<close>

definition suggestedDelayMs :: "string \<Rightarrow> jsNumber" where
  "suggestedDelayMs captured =
     (case parseFloat captured of NaN \<Rightarrow> NaN | Num x \<Rightarrow> Num (of_int \<lceil>x * 1000\<rceil> + 1000))"

definition RETRY_INFO_TYPE :: string where
  "RETRY_INFO_TYPE = ''type.googleapis.com/google.rpc.RetryInfo''"

text \<open>
  The body of the loop over \<open>details\<close> for a detail that is not \<open>null\<close>: the captured
  group, if the detail is an object whose \<open>@type\<close> is the RetryInfo type and whose
  \<open>retryDelay\<close> is a string that matches. A number, a boolean, a string or an array has
  no \<open>@type\<close>.
\<close>

definition retryInfoMatch :: "json \<Rightarrow> string option" where
  "retryInfoMatch detail =
     (case detail of
        JObj members \<Rightarrow>
          (if map_of members ''@type'' = Some (JStr RETRY_INFO_TYPE)
           then (case map_of members ''retryDelay'' of
                   Some (JStr retryDelay) \<Rightarrow> matchRetryDelay retryDelay
                 | _ \<Rightarrow> None)
           else None)
      | _ \<Rightarrow> None)"

text \<open>
  The loop over \<open>details\<close>. A \<open>null\<close> detail makes \<open>detail['@type']\<close> throw a
  TypeError, which the surrounding \<open>try\<close> catches: the function returns \<open>null\<close>.
\<close>

fun scanDetails :: "json list \<Rightarrow> jsNumber option" where
  "scanDetails [] = None"
| "scanDetails (detail # rest) =
     (if detail = JNull then None
      else (case retryInfoMatch detail of
              Some captured \<Rightarrow> Some (suggestedDelayMs captured)
            | None \<Rightarrow> scanDetails rest))"

text \<open>
  \<open>extractGeminiRetryDelay\<close>; \<open>None\<close> is \<open>null\<close>. \<open>JSON.parse\<close> is a parameter, with
  \<open>None\<close> where it throws. Iterating a string yields characters, which have no
  \<open>@type\<close>; iterating \<open>true\<close>, a number or an object throws, and the \<open>try\<close> returns \<open>null\<close>.
\<close>

definition extractGeminiRetryDelay :: "(string \<Rightarrow> json option) \<Rightarrow> string \<Rightarrow> jsNumber option" where
  "extractGeminiRetryDelay jsonParse errorText =
     (case jsonParse errorText of
        None \<Rightarrow> None
      | Some errorJson \<Rightarrow>
          (let details = optionalMember (optionalMember (Some errorJson) ''error'') ''details''
           in if \<not> truthy details then None
              else (case details of
                      Some (JArr ds) \<Rightarrow> scanDetails ds
                    | _ \<Rightarrow> None)))"


section \<open>Gemini agent: responses\<close>

text \<open>
  \<open>GeminiResponse\<close>, with the optional members as options. Members that are only
  logged (\<open>finishReason\<close>, \<open>safetyRatings\<close>, \<open>promptFeedback\<close>) are left out.
\<close>

record GeminiPart =
  partText :: "string option"
  partThought :: "bool option"

record GeminiCandidateContent =
  parts :: "GeminiPart list option"

record GeminiCandidate =
  candidateContent :: "GeminiCandidateContent option"

record GeminiUsageMetadata =
  totalTokenCount :: "int option"

record GeminiResponse =
  candidates :: "GeminiCandidate list option"
  usageMetadata :: "GeminiUsageMetadata option"

text \<open>The value a query returns: \<open>{ content: string; tokensUsed?: number }\<close>.\<close>

record queryResult =
  resultContent :: string
  tokensUsed :: "int option"

text \<open>\<open>data.candidates?.[0]?.content?.parts || []\<close>\<close>

definition firstCandidateParts :: "GeminiResponse \<Rightarrow> GeminiPart list" where
  "firstCandidateParts data =
     (case candidates data of
        None \<Rightarrow> []
      | Some [] \<Rightarrow> []
      | Some (candidate # _) \<Rightarrow>
          (case candidateContent candidate of
             None \<Rightarrow> []
           | Some c \<Rightarrow> (case parts c of None \<Rightarrow> [] | Some ps \<Rightarrow> ps)))"

text \<open>\<open>!p.thought && p.text\<close>: the text is there and not empty, and the part is no thought.\<close>

definition isContentPart :: "GeminiPart \<Rightarrow> bool" where
  "isContentPart p =
     (partThought p \<noteq> Some True \<and> (case partText p of None \<Rightarrow> False | Some t \<Rightarrow> t \<noteq> []))"

definition textOf :: "GeminiPart \<Rightarrow> string" where
  "textOf p = (case partText p of None \<Rightarrow> [] | Some t \<Rightarrow> t)"

definition parseGeminiResponse :: "GeminiResponse \<Rightarrow> string \<Rightarrow> queryResult" where
  "parseGeminiResponse data model =
     (let contentParts = filter isContentPart (firstCandidateParts data);
          content = concat (map textOf contentParts);
          hasContent = length content > 0
      in if \<not> hasContent then \<lparr>resultContent = [], tokensUsed = None\<rparr>
         else \<lparr>resultContent = content,
               tokensUsed = (case usageMetadata data of None \<Rightarrow> None | Some u \<Rightarrow> totalTokenCount u)\<rparr>)"

text \<open>Gemini's message format; \<open>assistant\<close> becomes \<open>model\<close>.\<close>

record GeminiContent =
  geminiRole :: string
  geminiParts :: "string list"

definition conversationToGeminiContents :: "ConversationMessage list \<Rightarrow> GeminiContent list" where
  "conversationToGeminiContents history =
     map (\<lambda>m. \<lparr>geminiRole = (if role m = ''assistant'' then ''model'' else ''user''),
               geminiParts = [content m]\<rparr>) history"


section \<open>Sessions and queued messages\<close>

record ActiveSession =
  sessionDbId :: int
  contentSessionId :: string
  memorySessionId :: "string option"
  project :: string
  userPrompt :: string
  lastPromptNumber :: int
  conversationHistory :: "ConversationMessage list"
  cumulativeInputTokens :: int
  cumulativeOutputTokens :: int
  earliestPendingTimestamp :: "real option"

record PendingMessage =
  messageType :: string
  cwd :: "string option"
  prompt_number :: "int option"
  tool_name :: string
  tool_input :: string
  tool_response :: string
  last_assistant_message :: "string option"


section \<open>The world outside the agent\<close>

text \<open>
  What a call of \<open>fetch\<close> does: it rejects, or it resolves to a response with a status,
  the result of \<open>response.text()\<close> and the result of \<open>response.json()\<close> (each may throw).
\<close>

datatype fetchResult =
    FetchThrows thrown
  | Response nat "thrown + string" "thrown + GeminiResponse"

datatype event =
    EvEnsureMemorySessionId
  | EvMessage PendingMessage
  | EvProcessAgentResponse string

text \<open>
  The mutable world: the clock read by \<open>Date.now()\<close>, the module variable
  \<open>lastRequestTime\<close>, and what was done so far: the requests sent (time and body), the
  delays waited for, and the calls into the session manager and the response processor.
\<close>

record world =
  clock :: real
  lastRequestTime :: real
  requests :: "(real \<times> GeminiContent list) list"
  waits :: "jsNumber list"
  events :: "event list"

text \<open>
  The behaviour of everything the agent calls that is defined outside \<open>GeminiAgent\<close>: the
  network, the random numbers, \<open>JSON.parse\<close>, the two error classifiers imported from
  \<open>agents/index.js\<close>, the prompt builders, the response processor and the message queue.
  \<open>fetchOutcome n\<close> and \<open>fetchLatency n\<close> are the outcome and the duration of the
  \<open>n\<close>-th request of the run, \<open>random n\<close> the value of \<open>Math.random()\<close> after it.
\<close>

record environment =
  fetchOutcome :: "nat \<Rightarrow> fetchResult"
  fetchLatency :: "nat \<Rightarrow> real"
  random :: "nat \<Rightarrow> real"
  jsonParse :: "string \<Rightarrow> json option"
  isAbortError :: "thrown \<Rightarrow> bool"
  shouldFallbackToClaude :: "thrown \<Rightarrow> bool \<Rightarrow> bool"
  buildInitPrompt :: "ActiveSession \<Rightarrow> string"
  buildContinuationPrompt :: "ActiveSession \<Rightarrow> string"
  buildObservationPrompt :: "PendingMessage \<Rightarrow> real \<Rightarrow> string"
  buildSummaryPrompt :: "ActiveSession \<Rightarrow> PendingMessage \<Rightarrow> string"
  processAgentResponseThrows :: "string \<Rightarrow> ActiveSession \<Rightarrow> thrown option"
  newMemorySessionId :: string
  pendingMessages :: "PendingMessage list"
  iteratorThrows :: "thrown option"

text \<open>
  \<open>await new Promise(resolve => setTimeout(resolve, delay))\<close>. The timer is ideal: the
  clock advances by the delay, and not at all for a negative or NaN delay.
\<close>

definition timerDuration :: "jsNumber \<Rightarrow> real" where
  "timerDuration delay = (case delay of NaN \<Rightarrow> 0 | Num d \<Rightarrow> max 0 d)"

definition sleep :: "jsNumber \<Rightarrow> world \<Rightarrow> world" where
  "sleep delay w = w\<lparr>clock := clock w + timerDuration delay, waits := waits w @ [delay]\<rparr>"


section \<open>Gemini agent: rate limit\<close>

definition GEMINI_RPM_LIMITS :: "(string \<times> nat) list" where
  "GEMINI_RPM_LIMITS =
     [(''gemini-2.5-flash-lite'', 10),
      (''gemini-2.5-flash'', 10),
      (''gemini-2.5-pro'', 5),
      (''gemini-2.0-flash'', 15),
      (''gemini-2.0-flash-lite'', 30),
      (''gemini-2.0-flash-exp'', 10),
      (''gemini-3-flash-preview'', 5),
      (''gemini-3-pro-preview'', 2)]"

text \<open>\<open>GEMINI_RPM_LIMITS[model] || 5\<close>\<close>

definition rpmOf :: "string \<Rightarrow> nat" where
  "rpmOf model = (case map_of GEMINI_RPM_LIMITS model of None \<Rightarrow> 5 | Some r \<Rightarrow> if r = 0 then 5 else r)"

text \<open>\<open>Math.ceil(60000 / rpm) + 100\<close>\<close>

definition minimumDelayMs :: "string \<Rightarrow> real" where
  "minimumDelayMs model = of_int \<lceil>60000 / real (rpmOf model)\<rceil> + 100"

definition enforceRateLimitForModel :: "string \<Rightarrow> bool \<Rightarrow> world \<Rightarrow> world" where
  "enforceRateLimitForModel model rateLimitingEnabled w =
     (if \<not> rateLimitingEnabled then w
      else
        (let now = clock w;
             timeSinceLastRequest = now - lastRequestTime w;
             w1 = (if timeSinceLastRequest < minimumDelayMs model
                   then sleep (Num (minimumDelayMs model - timeSinceLastRequest)) w
                   else w)
         in w1\<lparr>lastRequestTime := clock w1\<rparr>))"


section \<open>Gemini agent: the query with its retry loop\<close>

definition retryMaxAttempts :: "geminiSettings \<Rightarrow> int" where
  "retryMaxAttempts settings =
     orDefault (CLAUDE_MEM_GEMINI_RETRY_MAX_ATTEMPTS settings) DEFAULT_RETRY_MAX_ATTEMPTS"

definition retryBaseDelayMs :: "geminiSettings \<Rightarrow> int" where
  "retryBaseDelayMs settings =
     orDefault (CLAUDE_MEM_GEMINI_RETRY_BASE_DELAY_MS settings) DEFAULT_RETRY_BASE_DELAY_MS"

text \<open>What one pass through the body of the retry loop ends with.\<close>

datatype attemptResult =
    Return queryResult
  | Throw thrown
  | Retry jsNumber

text \<open>
  The \<open>catch\<close> block of the loop: a rate limit error before the last attempt waits for
  the backoff delay and continues, every other error is thrown again.
\<close>

definition catchBlock :: "int \<Rightarrow> int \<Rightarrow> real \<Rightarrow> nat \<Rightarrow> thrown \<Rightarrow> attemptResult" where
  "catchBlock maxAttempts baseDelayMs rnd attempt error =
     (if isRateLimitError error \<and> int attempt < maxAttempts - 1
      then Retry (Num (calculateBackoffDelay rnd attempt baseDelayMs))
      else Throw error)"

definition responseOk :: "nat \<Rightarrow> bool" where
  "responseOk status = (200 \<le> status \<and> status \<le> 299)"

text \<open>The \<open>try\<close> block of the loop, from the result of \<open>fetch\<close> on.\<close>

definition attemptBody ::
  "(string \<Rightarrow> json option) \<Rightarrow> string \<Rightarrow> int \<Rightarrow> int \<Rightarrow> real \<Rightarrow> nat \<Rightarrow> fetchResult \<Rightarrow> attemptResult" where
  "attemptBody parse model maxAttempts baseDelayMs rnd attempt outcome =
     (case outcome of
        FetchThrows error \<Rightarrow> catchBlock maxAttempts baseDelayMs rnd attempt error
      | Response status textResult jsonResult \<Rightarrow>
          if \<not> responseOk status then
            (case textResult of
               Inl error \<Rightarrow> catchBlock maxAttempts baseDelayMs rnd attempt error
             | Inr errorText \<Rightarrow>
                 if status = 429 \<and> int attempt < maxAttempts - 1 then
                   (case extractGeminiRetryDelay parse errorText of
                      Some geminiDelay \<Rightarrow> Retry geminiDelay
                    | None \<Rightarrow> Retry (Num (calculateBackoffDelay rnd attempt baseDelayMs)))
                 else catchBlock maxAttempts baseDelayMs rnd attempt (apiError status errorText))
          else
            (case jsonResult of
               Inl error \<Rightarrow> catchBlock maxAttempts baseDelayMs rnd attempt error
             | Inr data \<Rightarrow> Return (parseGeminiResponse data model)))"

text \<open>Sending the request: it is logged with the time it is issued at, and takes its latency.\<close>

definition sendRequest :: "environment \<Rightarrow> GeminiContent list \<Rightarrow> world \<Rightarrow> world" where
  "sendRequest env contents w =
     w\<lparr>requests := requests w @ [(clock w, contents)],
       clock := clock w + max 0 (fetchLatency env (length (requests w)))\<rparr>"

text \<open>
  \<open>for (let attempt = 0; attempt < maxAttempts; attempt++)\<close>, and the \<open>throw\<close> after the
  loop, which is reached when \<open>maxAttempts\<close> is not positive.
\<close>

function retryLoop ::
  "environment \<Rightarrow> string \<Rightarrow> int \<Rightarrow> int \<Rightarrow> GeminiContent list \<Rightarrow> nat \<Rightarrow> world
     \<Rightarrow> (thrown + queryResult) \<times> world" where
  "retryLoop env model maxAttempts baseDelayMs contents attempt w =
     (if int attempt < maxAttempts then
        (let n = length (requests w);
             w1 = sendRequest env contents w
         in case attemptBody (jsonParse env) model maxAttempts baseDelayMs (random env n) attempt
                   (fetchOutcome env n) of
              Return r \<Rightarrow> (Inr r, w1)
            | Throw error \<Rightarrow> (Inl error, w1)
            | Retry delay \<Rightarrow>
                retryLoop env model maxAttempts baseDelayMs contents (Suc attempt) (sleep delay w1))
      else (Inl (JsError ''Error'' ''Gemini request failed after retries''), w))"
  by pat_completeness auto
termination
  by (relation "measure (\<lambda>(env, model, maxAttempts, baseDelayMs, contents, attempt, w).
        nat (maxAttempts - int attempt))") auto

declare retryLoop.simps [simp del]

record geminiConfig =
  apiKey :: string
  model :: string
  rateLimitingEnabled :: bool

definition queryGeminiMultiTurn ::
  "environment \<Rightarrow> geminiSettings \<Rightarrow> geminiConfig \<Rightarrow> ConversationMessage list \<Rightarrow> world
     \<Rightarrow> (thrown + queryResult) \<times> world" where
  "queryGeminiMultiTurn env settings config history w =
     (let truncatedHistory = truncateHistory settings history;
          contents = conversationToGeminiContents truncatedHistory;
          w1 = enforceRateLimitForModel (model config) (rateLimitingEnabled config) w
      in retryLoop env (model config) (retryMaxAttempts settings) (retryBaseDelayMs settings)
           contents 0 w1)"


section \<open>Gemini agent: configuration\<close>

text \<open>
  The settings read by \<open>getGeminiConfig\<close> and by the \<open>catch\<close> block of \<open>startSession\<close>,
  and the environment variable \<open>GEMINI_API_KEY\<close>; \<open>None\<close> is an absent value.
\<close>

record agentSettings =
  CLAUDE_MEM_GEMINI_API_KEY :: "string option"
  GEMINI_API_KEY :: "string option"
  CLAUDE_MEM_GEMINI_MODEL :: "string option"
  CLAUDE_MEM_GEMINI_RATE_LIMITING_ENABLED :: "string option"
  CLAUDE_MEM_DISABLE_CLAUDE_FALLBACK :: "string option"

text \<open>\<open>a || b\<close> on strings: the empty string and an absent value are falsy.\<close>

definition orElse :: "string option \<Rightarrow> string \<Rightarrow> string" where
  "orElse a b = (case a of None \<Rightarrow> b | Some s \<Rightarrow> if s = [] then b else s)"

definition validModels :: "string list" where
  "validModels =
     [''gemini-2.5-flash-lite'', ''gemini-2.5-flash'', ''gemini-2.5-pro'', ''gemini-2.0-flash'',
      ''gemini-2.0-flash-lite'', ''gemini-2.0-flash-exp'', ''gemini-3-flash-preview'',
      ''gemini-3-pro-preview'']"

definition getGeminiConfig :: "agentSettings \<Rightarrow> geminiConfig" where
  "getGeminiConfig settings =
     (let defaultModel = ''gemini-2.5-flash'';
          configuredModel = orElse (CLAUDE_MEM_GEMINI_MODEL settings) defaultModel
      in \<lparr>apiKey = orElse (CLAUDE_MEM_GEMINI_API_KEY settings) (orElse (GEMINI_API_KEY settings) []),
          model = (if configuredModel \<in> set validModels then configuredModel else defaultModel),
          rateLimitingEnabled = (CLAUDE_MEM_GEMINI_RATE_LIMITING_ENABLED settings \<noteq> Some ''false'')\<rparr>)"


section \<open>Gemini agent: the session\<close>

text \<open>
  Modelled from the spec: \<open>SessionManager.ensureMemorySessionId\<close> is defined in
  \<open>SessionManager.js\<close>, which is not among the source files. The spec has the
  \<open>memory_session_id\<close> of a session "assigned lazily on first successful agent response
  for stateless providers": the call gives the session an id when it has none and keeps
  the id it has. The call is logged.
\<close>

definition ensureMemorySessionId :: "environment \<Rightarrow> ActiveSession \<Rightarrow> world \<Rightarrow> ActiveSession \<times> world" where
  "ensureMemorySessionId env session w =
     ((case memorySessionId session of
         None \<Rightarrow> session\<lparr>memorySessionId := Some (newMemorySessionId env)\<rparr>
       | Some _ \<Rightarrow> session),
      w\<lparr>events := events w @ [EvEnsureMemorySessionId]\<rparr>)"

text \<open>
  Modelled from the spec: \<open>processAgentResponse\<close> (the response processor) is defined in
  \<open>agents/index.js\<close>, which is not among the source files. The spec has it parse the
  text and write to the stores; here it is a logged call that may throw, and the session
  fields of this model are not written.
\<close>

definition processAgentResponse ::
  "environment \<Rightarrow> string \<Rightarrow> ActiveSession \<Rightarrow> world \<Rightarrow> thrown option \<times> world" where
  "processAgentResponse env text session w =
     (processAgentResponseThrows env text session,
      w\<lparr>events := events w @ [EvProcessAgentResponse text]\<rparr>)"

text \<open>\<open>session.conversationHistory.push({ role, content })\<close>\<close>

definition pushMessage :: "string \<Rightarrow> string \<Rightarrow> ActiveSession \<Rightarrow> ActiveSession" where
  "pushMessage r c session =
     session\<lparr>conversationHistory := conversationHistory session @ [\<lparr>role = r, content = c\<rparr>]\<rparr>"

text \<open>
  \<open>tokensUsed = response.tokensUsed || 0\<close> and the two \<open>Math.floor\<close> updates of the
  cumulative counters.
\<close>

definition trackTokens :: "queryResult \<Rightarrow> ActiveSession \<Rightarrow> ActiveSession" where
  "trackTokens response session =
     (let used = (case tokensUsed response of None \<Rightarrow> 0 | Some n \<Rightarrow> n)
      in session\<lparr>cumulativeInputTokens := cumulativeInputTokens session + \<lfloor>real_of_int used * 0.7\<rfloor>,
                 cumulativeOutputTokens := cumulativeOutputTokens session + \<lfloor>real_of_int used * 0.3\<rfloor>\<rparr>)"

type_synonym sessionStep = "(thrown + unit) \<times> ActiveSession \<times> world"

text \<open>
  The \<open>try\<close> block from the init prompt to the handling of the init response. \<open>Inl\<close> is
  an exception thrown at that point, with the session and the world as they are then.
\<close>

definition initTurn ::
  "environment \<Rightarrow> geminiSettings \<Rightarrow> geminiConfig \<Rightarrow> ActiveSession \<Rightarrow> world \<Rightarrow> sessionStep" where
  "initTurn env settings config session w =
     (let initPrompt = (if lastPromptNumber session = 1 then buildInitPrompt env session
                        else buildContinuationPrompt env session);
          s1 = pushMessage ''user'' initPrompt session
      in case queryGeminiMultiTurn env settings config (conversationHistory s1) w of
           (Inl error, w1) \<Rightarrow> (Inl error, s1, w1)
         | (Inr initResponse, w1) \<Rightarrow>
             (let (s2, w2) = ensureMemorySessionId env s1 w1
              in if resultContent initResponse \<noteq> [] then
                   (let s3 = trackTokens initResponse
                               (pushMessage ''assistant'' (resultContent initResponse) s2)
                    in case processAgentResponse env (resultContent initResponse) s3 w2 of
                         (Some error, w3) \<Rightarrow> (Inl error, s3, w3)
                       | (None, w3) \<Rightarrow> (Inr (), s3, w3))
                 else (Inr (), pushMessage ''assistant'' ''<acknowledged>'' s2, w2)))"

text \<open>
  What the loop does with the response to an observation or summary prompt: the same
  code in both branches.
\<close>

definition handleResponse ::
  "environment \<Rightarrow> queryResult \<Rightarrow> ActiveSession \<Rightarrow> world \<Rightarrow> sessionStep" where
  "handleResponse env response session w =
     (let s1 = (if resultContent response \<noteq> []
                then trackTokens response (pushMessage ''assistant'' (resultContent response) session)
                else session)
      in case processAgentResponse env (resultContent response) s1 w of
           (Some error, w1) \<Rightarrow> (Inl error, s1, w1)
         | (None, w1) \<Rightarrow> (Inr (), s1, w1))"

text \<open>
  The body of \<open>for await (const message of getMessageIterator(...))\<close> for one message.
  The iterator belongs to the session manager; the messages it yields are
  \<open>pendingMessages\<close>, and \<open>iteratorThrows\<close> is the exception it ends with, if any.
  (\<open>lastCwd\<close> is only handed to the response processor and is left out.)
\<close>

definition processMessage ::
  "environment \<Rightarrow> geminiSettings \<Rightarrow> geminiConfig \<Rightarrow> PendingMessage \<Rightarrow> ActiveSession \<Rightarrow> world
     \<Rightarrow> sessionStep" where
  "processMessage env settings config message session w =
     (let w0 = w\<lparr>events := events w @ [EvMessage message]\<rparr>;
          originalTimestamp = earliestPendingTimestamp session
      in if messageType message = ''observation'' then
           (let s1 = (case prompt_number message of
                        None \<Rightarrow> session
                      | Some n \<Rightarrow> session\<lparr>lastPromptNumber := n\<rparr>);
                obsPrompt = buildObservationPrompt env message
                              (case originalTimestamp of None \<Rightarrow> clock w0 | Some t \<Rightarrow> t);
                s2 = pushMessage ''user'' obsPrompt s1
            in case queryGeminiMultiTurn env settings config (conversationHistory s2) w0 of
                 (Inl error, w1) \<Rightarrow> (Inl error, s2, w1)
               | (Inr obsResponse, w1) \<Rightarrow> handleResponse env obsResponse s2 w1)
         else if messageType message = ''summarize'' then
           (let summaryPrompt = buildSummaryPrompt env session message;
                s2 = pushMessage ''user'' summaryPrompt session
            in case queryGeminiMultiTurn env settings config (conversationHistory s2) w0 of
                 (Inl error, w1) \<Rightarrow> (Inl error, s2, w1)
               | (Inr summaryResponse, w1) \<Rightarrow> handleResponse env summaryResponse s2 w1)
         else (Inr (), session, w0))"

fun processMessages ::
  "environment \<Rightarrow> geminiSettings \<Rightarrow> geminiConfig \<Rightarrow> PendingMessage list \<Rightarrow> ActiveSession \<Rightarrow> world
     \<Rightarrow> sessionStep" where
  "processMessages env settings config [] session w =
     (case iteratorThrows env of
        Some error \<Rightarrow> (Inl error, session, w)
      | None \<Rightarrow> (Inr (), session, w))"
| "processMessages env settings config (message # rest) session w =
     (case processMessage env settings config message session w of
        (Inl error, s1, w1) \<Rightarrow> (Inl error, s1, w1)
      | (Inr u, s1, w1) \<Rightarrow> processMessages env settings config rest s1 w1)"

definition API_KEY_ERROR :: thrown where
  "API_KEY_ERROR = JsError ''Error''
     ''Gemini API key not configured. Set CLAUDE_MEM_GEMINI_API_KEY in settings or GEMINI_API_KEY environment variable.''"

text \<open>The whole \<open>try\<close> block of \<open>startSession\<close>.\<close>

definition tryBlock ::
  "environment \<Rightarrow> geminiSettings \<Rightarrow> agentSettings \<Rightarrow> ActiveSession \<Rightarrow> world \<Rightarrow> sessionStep" where
  "tryBlock env settings agentCfg session w =
     (let config = getGeminiConfig agentCfg
      in if apiKey config = [] then (Inl API_KEY_ERROR, session, w)
         else (case initTurn env settings config session w of
                 (Inl error, s1, w1) \<Rightarrow> (Inl error, s1, w1)
               | (Inr u, s1, w1) \<Rightarrow>
                   processMessages env settings config (pendingMessages env) s1 w1))"

text \<open>
  The agent holds its fallback agent, \<open>null\<close> until \<open>setFallbackAgent\<close> is called. The
  fallback agent is given by its \<open>startSession\<close>, a function of the session and the world
  it is handed.
\<close>

record 'r GeminiAgent =
  fallbackAgent :: "(ActiveSession \<Rightarrow> world \<Rightarrow> 'r) option"

definition setFallbackAgent :: "(ActiveSession \<Rightarrow> world \<Rightarrow> 'r) \<Rightarrow> 'r GeminiAgent \<Rightarrow> 'r GeminiAgent" where
  "setFallbackAgent agent this = this\<lparr>fallbackAgent := Some agent\<rparr>"

datatype 'r sessionOutcome =
    Completed
  | Threw thrown
  | FellBack 'r

text \<open>The \<open>catch\<close> block of \<open>startSession\<close>, for the error caught and the state at that point.\<close>

definition catchSessionError ::
  "environment \<Rightarrow> agentSettings \<Rightarrow> 'r GeminiAgent \<Rightarrow> thrown \<Rightarrow> ActiveSession \<Rightarrow> world
     \<Rightarrow> 'r sessionOutcome" where
  "catchSessionError env agentCfg this error session w =
     (if isAbortError env error then Threw error
      else
        (let disableFallback = (CLAUDE_MEM_DISABLE_CLAUDE_FALLBACK agentCfg \<noteq> Some ''false'')
         in if shouldFallbackToClaude env error disableFallback then
              (case fallbackAgent this of
                 Some agent \<Rightarrow> FellBack (agent session w)
               | None \<Rightarrow> Threw error)
            else Threw error))"

definition startSession ::
  "environment \<Rightarrow> geminiSettings \<Rightarrow> agentSettings \<Rightarrow> 'r GeminiAgent \<Rightarrow> ActiveSession \<Rightarrow> world
     \<Rightarrow> 'r sessionOutcome \<times> ActiveSession \<times> world" where
  "startSession env settings agentCfg this session w =
     (case tryBlock env settings agentCfg session w of
        (Inr u, s1, w1) \<Rightarrow> (Completed, s1, w1)
      | (Inl error, s1, w1) \<Rightarrow> (catchSessionError env agentCfg this error s1 w1, s1, w1))"

text \<open>
  The error the \<open>try\<close> block of the retry loop raises for an outcome of \<open>fetch\<close>:
  what \<open>fetch\<close>, \<open>response.text()\<close> or \<open>response.json()\<close> throws, or the
  \<open>Error\<close> built for a response that is not ok. A parsed response raises none.
\<close>

definition errorRaised :: "fetchResult \<Rightarrow> thrown option" where
  "errorRaised outcome =
     (case outcome of
        FetchThrows error \<Rightarrow> Some error
      | Response status textResult jsonResult \<Rightarrow>
          if \<not> responseOk status then
            (case textResult of
               Inl error \<Rightarrow> Some error
             | Inr errorText \<Rightarrow> Some (apiError status errorText))
          else (case jsonResult of Inl error \<Rightarrow> Some error | Inr data \<Rightarrow> None))"


section \<open>Spawn lock\<close>

text \<open>
  The lock is the file \<open>spawn.lock\<close> in the data directory; the state is its content,
  \<open>None\<close> when the file does not exist. \<open>LockInfo\<close> is the declared type of what
  \<open>JSON.parse\<close> gives for the content.
\<close>

record LockInfo =
  pid :: int
  timestamp :: real

text \<open>
  What the lock code calls: \<open>Date.now()\<close>, \<open>process.pid\<close>, whether \<open>process.kill(pid, 0)\<close>
  succeeds, \<open>readFileSync\<close> with \<open>JSON.parse\<close> (\<open>None\<close> when reading, parsing or the
  access to the members of the value throws),
  \<open>JSON.stringify\<close>, and the errors the file system answers \<open>mkdirSync\<close>, \<open>unlinkSync\<close> and
  \<open>writeFileSync\<close> with (other than \<open>EEXIST\<close>), if it does.
\<close>

record lockEnvironment =
  now :: real
  processPid :: int
  killProbeSucceeds :: "int \<Rightarrow> bool"
  readLockInfo :: "string \<Rightarrow> LockInfo option"
  stringifyLockInfo :: "LockInfo \<Rightarrow> string"
  mkdirError :: "thrown option"
  unlinkError :: "thrown option"
  writeError :: "thrown option"












section \<open>Concrete inputs\<close>

definition exampleUtilsState :: "string option \<Rightarrow> string option \<Rightarrow> utilsState" where
  "exampleUtilsState allowed ignored =
     \<lparr>settingsOnDisk = \<lparr>CLAUDE_MEM_ALLOWED_PROJECTS_ONLY = allowed, CLAUDE_MEM_IGNORED_PROJECTS = ignored\<rparr>,
      cachedAllowedProjectsOnly = None, cachedIgnoredProjects = None\<rparr>"

definition msg :: "string \<Rightarrow> string \<Rightarrow> ConversationMessage" where
  "msg r c = \<lparr>role = r, content = c\<rparr>"

definition exampleSettings :: "int option \<Rightarrow> int option \<Rightarrow> geminiSettings" where
  "exampleSettings m t =
     \<lparr>CLAUDE_MEM_GEMINI_MAX_CONTEXT_MESSAGES = m, CLAUDE_MEM_GEMINI_MAX_TOKENS = t,
      CLAUDE_MEM_GEMINI_RETRY_MAX_ATTEMPTS = None, CLAUDE_MEM_GEMINI_RETRY_BASE_DELAY_MS = None\<rparr>"


definition exampleEnv :: "(nat \<Rightarrow> fetchResult) \<Rightarrow> (string \<Rightarrow> json option) \<Rightarrow> PendingMessage list \<Rightarrow> environment" where
  "exampleEnv outcomes parse queue =
     \<lparr>fetchOutcome = outcomes,
      fetchLatency = (\<lambda>n. 200),
      random = (\<lambda>n. 0.5),
      jsonParse = parse,
      isAbortError = (\<lambda>error. case error of JsError n m \<Rightarrow> n = ''AbortError'' | NonError v \<Rightarrow> False),
      shouldFallbackToClaude =
        (\<lambda>error disableFallback. \<not> disableFallback
           \<and> (case error of JsError n m \<Rightarrow> strIncludes m ''429'' | NonError v \<Rightarrow> False)),
      buildInitPrompt = (\<lambda>session. ''init: '' @ userPrompt session),
      buildContinuationPrompt = (\<lambda>session. ''continue: '' @ userPrompt session),
      buildObservationPrompt = (\<lambda>message t. ''observed: '' @ tool_name message),
      buildSummaryPrompt = (\<lambda>session message. ''summarize''),
      processAgentResponseThrows = (\<lambda>text session. None),
      newMemorySessionId = ''mem-1'',
      pendingMessages = queue,
      iteratorThrows = None\<rparr>"

definition exampleWorld :: world where
  "exampleWorld = \<lparr>clock = 1000000, lastRequestTime = 0, requests = [], waits = [], events = []\<rparr>"

definition exampleConfig :: geminiConfig where
  "exampleConfig = \<lparr>apiKey = ''key'', model = ''gemini-2.5-flash'', rateLimitingEnabled = True\<rparr>"

definition retrySettings :: "int option \<Rightarrow> int option \<Rightarrow> geminiSettings" where
  "retrySettings attempts base =
     \<lparr>CLAUDE_MEM_GEMINI_MAX_CONTEXT_MESSAGES = None, CLAUDE_MEM_GEMINI_MAX_TOKENS = None,
      CLAUDE_MEM_GEMINI_RETRY_MAX_ATTEMPTS = attempts, CLAUDE_MEM_GEMINI_RETRY_BASE_DELAY_MS = base\<rparr>"


text \<open>A first response 429 without a retry hint, then a response 500.\<close>

definition busyThenBoom :: "nat \<Rightarrow> fetchResult" where
  "busyThenBoom n =
     (if n = 0 then Response 429 (Inr ''busy'') (Inl (JsError ''SyntaxError'' ''no json''))
      else Response 500 (Inr ''boom'') (Inl (JsError ''SyntaxError'' ''no json'')))"

definition noJson :: "string \<Rightarrow> json option" where
  "noJson s = None"


text \<open>Error payloads of a 429 response, as text and as the value \<open>JSON.parse\<close> gives for it.\<close>

definition dq :: char where "dq = CHR 0x22"

definition quoted :: "string \<Rightarrow> string" where
  "quoted s = dq # s @ [dq]"

definition retryInfo :: "string \<Rightarrow> json" where
  "retryInfo delay = JObj [(''@type'', JStr RETRY_INFO_TYPE), (''retryDelay'', JStr delay)]"

definition errorPayload :: "json list \<Rightarrow> json" where
  "errorPayload details =
     JObj [(''error'', JObj [(''code'', JNum 429), (''status'', JStr ''RESOURCE_EXHAUSTED''),
                             (''details'', JArr details)])]"

definition nullThenRetryInfoText :: string where
  "nullThenRetryInfoText =
     ''{'' @ quoted ''error'' @ '':{'' @ quoted ''code'' @ '':429,'' @ quoted ''status'' @ '':''
       @ quoted ''RESOURCE_EXHAUSTED'' @ '','' @ quoted ''details'' @ '':[null,{'' @ quoted ''@type''
       @ '':'' @ quoted RETRY_INFO_TYPE @ '','' @ quoted ''retryDelay'' @ '':'' @ quoted ''5s'' @ ''}]}}''"

definition parseOnly :: "string \<Rightarrow> json \<Rightarrow> string \<Rightarrow> json option" where
  "parseOnly text v s = (if s = text then Some v else None)"

definition retryInfoText :: string where
  "retryInfoText =
     ''{'' @ quoted ''error'' @ '':{'' @ quoted ''code'' @ '':429,'' @ quoted ''status'' @ '':''
       @ quoted ''RESOURCE_EXHAUSTED'' @ '','' @ quoted ''details'' @ '':[{'' @ quoted ''@type''
       @ '':'' @ quoted RETRY_INFO_TYPE @ '','' @ quoted ''retryDelay'' @ '':''
       @ quoted ''32.083535778s'' @ ''}]}}''"





definition thoughtResponse :: GeminiResponse where
  "thoughtResponse =
     \<lparr>candidates = Some [\<lparr>candidateContent = Some \<lparr>parts = Some [\<lparr>partText = Some ''planning'', partThought = Some True\<rparr>]\<rparr>\<rparr>],
      usageMetadata = Some \<lparr>totalTokenCount = Some 7\<rparr>\<rparr>"

definition thinkingOnly :: "nat \<Rightarrow> fetchResult" where
  "thinkingOnly n = Response 200 (Inr []) (Inr thoughtResponse)"

definition exampleAgentSettings :: agentSettings where
  "exampleAgentSettings =
     \<lparr>CLAUDE_MEM_GEMINI_API_KEY = Some ''key'', GEMINI_API_KEY = None,
      CLAUDE_MEM_GEMINI_MODEL = None, CLAUDE_MEM_GEMINI_RATE_LIMITING_ENABLED = None,
      CLAUDE_MEM_DISABLE_CLAUDE_FALLBACK = Some ''false''\<rparr>"

definition exampleSession :: ActiveSession where
  "exampleSession =
     \<lparr>sessionDbId = 1, contentSessionId = ''content-1'', memorySessionId = None, project = ''demo'',
      userPrompt = ''hi'', lastPromptNumber = 1, conversationHistory = [],
      cumulativeInputTokens = 0, cumulativeOutputTokens = 0, earliestPendingTimestamp = None\<rparr>"


definition alwaysBoom :: "nat \<Rightarrow> fetchResult" where
  "alwaysBoom n = Response 500 (Inr ''boom'') (Inl (JsError ''SyntaxError'' ''no json''))"

definition observationMessage :: PendingMessage where
  "observationMessage =
     \<lparr>messageType = ''observation'', cwd = None, prompt_number = Some 2, tool_name = ''Edit'',
      tool_input = ''{}'', tool_response = ''{}'', last_assistant_message = None\<rparr>"


definition alwaysBusy :: "nat \<Rightarrow> fetchResult" where
  "alwaysBusy n = Response 429 (Inr ''busy'') (Inl (JsError ''SyntaxError'' ''no json''))"

text \<open>A fallback agent that reports the length of the conversation history it is handed.\<close>

definition countingAgent :: "ActiveSession \<Rightarrow> world \<Rightarrow> nat" where
  "countingAgent session w = length (conversationHistory session)"

text \<open>The queue iterator is aborted; the message of the error mentions a status 429.\<close>

definition abortError :: thrown where
  "abortError = JsError ''AbortError'' ''aborted while waiting after status 429''"

definition abortedEnv :: environment where
  "abortedEnv = (exampleEnv thinkingOnly noJson [])\<lparr>iteratorThrows := Some abortError\<rparr>"




section \<open>Theorems\<close>

subsection \<open>Project filter\<close>

lemma someIncluded_iff: "someIncluded names ys \<longleftrightarrow> (\<exists>n \<in> set names. n \<in> set ys)"
  by (simp add: someIncluded_def list_ex_iff)

lemma getIgnoredProjects_keeps_whitelist:
  "fst (getAllowedProjectsOnly trim (snd (getIgnoredProjects trim st))) = fst (getAllowedProjectsOnly trim st)"
  by (simp add: getIgnoredProjects_def getAllowedProjectsOnly_def Let_def split: option.splits)

lemma getAllowedProjectsOnly_keeps_blacklist:
  "fst (getIgnoredProjects trim (snd (getAllowedProjectsOnly trim st))) = fst (getIgnoredProjects trim st)"
  by (simp add: getIgnoredProjects_def getAllowedProjectsOnly_def Let_def split: option.splits)

lemma isProjectIgnored_result:
  "fst (isProjectIgnored trim st projectNames) =
     (if whitelistOf trim st \<noteq> [] then \<not> someIncluded projectNames (whitelistOf trim st)
      else if blacklistOf trim st \<noteq> [] then someIncluded projectNames (blacklistOf trim st)
      else False)"
proof -
  obtain allowedOnly st1 where a: "getAllowedProjectsOnly trim st = (allowedOnly, st1)"
    by (cases "getAllowedProjectsOnly trim st")
  obtain ignored st2 where b: "getIgnoredProjects trim st1 = (ignored, st2)"
    by (cases "getIgnoredProjects trim st1")
  have w: "whitelistOf trim st = allowedOnly" using a by (simp add: whitelistOf_def)
  have "blacklistOf trim st = fst (getIgnoredProjects trim (snd (getAllowedProjectsOnly trim st)))"
    by (simp add: blacklistOf_def getAllowedProjectsOnly_keeps_blacklist)
  then have bl: "blacklistOf trim st = ignored" using a b by simp
  show ?thesis
    unfolding w bl by (simp add: isProjectIgnored_def a b)
qed

lemma example_project_lists:
  "whitelistOf (\<lambda>s. s) (exampleUtilsState (Some ''app,web'') (Some ''web'')) = [''app'', ''web'']"
  "blacklistOf (\<lambda>s. s) (exampleUtilsState (Some ''app,web'') (Some ''web'')) = [''web'']"
  "whitelistOf (\<lambda>s. s) (exampleUtilsState None (Some ''tmp,,web'')) = []"
  "blacklistOf (\<lambda>s. s) (exampleUtilsState None (Some ''tmp,,web'')) = [''tmp'', ''web'']"
  "whitelistOf (\<lambda>s. s) (exampleUtilsState (Some []) None) = []"
  "blacklistOf (\<lambda>s. s) (exampleUtilsState (Some []) None) = []"
  by (simp_all add: whitelistOf_def blacklistOf_def exampleUtilsState_def getAllowedProjectsOnly_def
      getIgnoredProjects_def parseProjectList_def Let_def)

text \<open>
  Claim C9. With a non-empty whitelist the answer is "ignored" exactly when no given name
  is in the whitelist, whatever the blacklist holds; with an empty whitelist and a
  non-empty blacklist it is "ignored" exactly when some given name is in the blacklist;
  with both lists empty nothing is ignored. (\<open>getIgnoredProjects\<close> is still called in
  whitelist mode and fills its cache; its list does not enter the answer.)
\<close>

theorem isProjectIgnored_precedence:
  "(whitelistOf trim st \<noteq> [] \<longrightarrow>
      (fst (isProjectIgnored trim st projectNames) \<longleftrightarrow>
         \<not> (\<exists>name \<in> set projectNames. name \<in> set (whitelistOf trim st))))
   \<and> (whitelistOf trim st = [] \<and> blacklistOf trim st \<noteq> [] \<longrightarrow>
      (fst (isProjectIgnored trim st projectNames) \<longleftrightarrow>
         (\<exists>name \<in> set projectNames. name \<in> set (blacklistOf trim st))))
   \<and> (whitelistOf trim st = [] \<and> blacklistOf trim st = [] \<longrightarrow>
      \<not> fst (isProjectIgnored trim st projectNames))"
  by (simp add: isProjectIgnored_result someIncluded_iff)

theorem isProjectIgnored_precedence_witness:
  "whitelistOf (\<lambda>s. s) (exampleUtilsState (Some ''app,web'') (Some ''web'')) \<noteq> []
   \<and> \<not> fst (isProjectIgnored (\<lambda>s. s) (exampleUtilsState (Some ''app,web'') (Some ''web'')) [''web''])
   \<and> fst (isProjectIgnored (\<lambda>s. s) (exampleUtilsState (Some ''app,web'') (Some ''web'')) [''docs''])
   \<and> whitelistOf (\<lambda>s. s) (exampleUtilsState None (Some ''tmp,,web'')) = []
   \<and> blacklistOf (\<lambda>s. s) (exampleUtilsState None (Some ''tmp,,web'')) \<noteq> []
   \<and> fst (isProjectIgnored (\<lambda>s. s) (exampleUtilsState None (Some ''tmp,,web'')) [''docs'', ''web''])
   \<and> \<not> fst (isProjectIgnored (\<lambda>s. s) (exampleUtilsState None (Some ''tmp,,web'')) [''docs''])
   \<and> whitelistOf (\<lambda>s. s) (exampleUtilsState (Some []) None) = []
   \<and> blacklistOf (\<lambda>s. s) (exampleUtilsState (Some []) None) = []
   \<and> \<not> fst (isProjectIgnored (\<lambda>s. s) (exampleUtilsState (Some []) None) [''docs''])"
  using isProjectIgnored_precedence [of "\<lambda>s. s" "exampleUtilsState (Some ''app,web'') (Some ''web'')" "[''web'']"]
        isProjectIgnored_precedence [of "\<lambda>s. s" "exampleUtilsState (Some ''app,web'') (Some ''web'')" "[''docs'']"]
        isProjectIgnored_precedence [of "\<lambda>s. s" "exampleUtilsState None (Some ''tmp,,web'')" "[''docs'', ''web'']"]
        isProjectIgnored_precedence [of "\<lambda>s. s" "exampleUtilsState None (Some ''tmp,,web'')" "[''docs'']"]
        isProjectIgnored_precedence [of "\<lambda>s. s" "exampleUtilsState (Some []) None" "[''docs'']"]
  by (simp add: example_project_lists)


subsection \<open>Context window\<close>

lemma totalTokens_Cons:
  "totalTokens (m # ms) = estimateTokens (content m) + totalTokens ms"
proof -
  have "foldl (\<lambda>sum m. sum + estimateTokens (content m)) a xs
          = a + foldl (\<lambda>sum m. sum + estimateTokens (content m)) 0 xs" for a xs
    by (induction xs arbitrary: a) (simp, metis (no_types, lifting) add.assoc add.left_neutral foldl_Cons)
  then show ?thesis by (simp add: totalTokens_def)
qed

text \<open>
  Invariant of the sliding window: what has been collected is the suffix of the history
  from the loop counter on, \<open>tokenCount\<close> is its estimate, and both stay within the
  limits (within zero where a limit is negative).
\<close>

lemma truncateLoop_window:
  assumes "k \<le> length history"
      and "truncated = drop k history"
      and "tokenCount = totalTokens truncated"
      and "int (length truncated) \<le> max 0 maxM"
      and "tokenCount \<le> max 0 maxT"
  shows "\<exists>j\<le>k. truncateLoop maxM maxT history k truncated tokenCount = drop j history
           \<and> int (length (drop j history)) \<le> max 0 maxM
           \<and> totalTokens (drop j history) \<le> max 0 maxT"
  using assms
proof (induction k arbitrary: truncated tokenCount)
  case 0
  then show ?case by auto
next
  case (Suc i)
  let ?msg = "history ! i"
  let ?t = "estimateTokens (content ?msg)"
  show ?case
  proof (cases "int (length truncated) \<ge> maxM \<or> tokenCount + ?t > maxT")
    case True
    then have "truncateLoop maxM maxT history (Suc i) truncated tokenCount = truncated"
      by (simp add: Let_def)
    with Suc.prems show ?thesis by auto
  next
    case False
    then have step: "truncateLoop maxM maxT history (Suc i) truncated tokenCount
                 = truncateLoop maxM maxT history i (?msg # truncated) (tokenCount + ?t)"
      by (simp add: Let_def)
    have i: "i < length history" using Suc.prems(1) by simp
    have d: "?msg # truncated = drop i history"
      using Suc.prems(2) i by (simp add: Cons_nth_drop_Suc)
    have "\<exists>j\<le>i. truncateLoop maxM maxT history i (?msg # truncated) (tokenCount + ?t) = drop j history
           \<and> int (length (drop j history)) \<le> max 0 maxM
           \<and> totalTokens (drop j history) \<le> max 0 maxT"
    proof (rule Suc.IH)
      show "i \<le> length history" using i by simp
      show "?msg # truncated = drop i history" by (rule d)
      show "tokenCount + ?t = totalTokens (?msg # truncated)"
        using Suc.prems(3) by (simp add: totalTokens_Cons)
      show "int (length (?msg # truncated)) \<le> max 0 maxM" using False by auto
      show "tokenCount + ?t \<le> max 0 maxT" using False by auto
    qed
    then show ?thesis using step by (metis le_Suc_eq)
  qed
qed

lemmas example_settings_defs =
  truncateHistory_def exampleSettings_def msg_def maxContextMessages_def maxEstimatedTokens_def
  orDefault_def totalTokens_def estimateTokens_def CHARS_PER_TOKEN_ESTIMATE_def
  DEFAULT_GEMINI_MAX_CONTEXT_MESSAGES_def DEFAULT_GEMINI_MAX_ESTIMATED_TOKENS_def Let_def

text \<open>
  Claim C1, as the code has it. \<open>truncateHistory\<close> returns a suffix of the history (the
  oldest turns are the ones dropped); its message count is at most the configured
  maximum and its estimated tokens are at most the configured budget, where a negative
  limit counts as zero; a history within both limits is returned as it is. The history
  is an argument that is only read, so the caller's list is the same afterwards.
\<close>

theorem truncateHistory_window:
  "(\<exists>j \<le> length history. truncateHistory settings history = drop j history)
   \<and> int (length (truncateHistory settings history)) \<le> max 0 (maxContextMessages settings)
   \<and> totalTokens (truncateHistory settings history) \<le> max 0 (maxEstimatedTokens settings)
   \<and> (int (length history) \<le> maxContextMessages settings
        \<and> totalTokens history \<le> maxEstimatedTokens settings
      \<longrightarrow> truncateHistory settings history = history)"
proof (cases "int (length history) \<le> maxContextMessages settings
              \<and> totalTokens history \<le> maxEstimatedTokens settings")
  case True
  then have "truncateHistory settings history = history"
    by (simp add: truncateHistory_def)
  moreover have "history = drop 0 history" by simp
  ultimately show ?thesis using True by (metis le0 max.coboundedI2)
next
  case False
  then have t: "truncateHistory settings history
      = truncateLoop (maxContextMessages settings) (maxEstimatedTokens settings) history (length history) [] 0"
    by (auto simp add: truncateHistory_def Let_def)
  have "\<exists>j\<le>length history.
          truncateLoop (maxContextMessages settings) (maxEstimatedTokens settings) history (length history) [] 0
            = drop j history
          \<and> int (length (drop j history)) \<le> max 0 (maxContextMessages settings)
          \<and> totalTokens (drop j history) \<le> max 0 (maxEstimatedTokens settings)"
    by (rule truncateLoop_window) (simp_all add: totalTokens_def)
  then show ?thesis using t False by auto
qed

theorem truncateHistory_window_witness:
  "int (length [msg ''user'' ''aaaaaaaaa'', msg ''assistant'' ''bbbbb'', msg ''user'' ''c''])
      \<le> maxContextMessages (exampleSettings None None)
   \<and> totalTokens [msg ''user'' ''aaaaaaaaa'', msg ''assistant'' ''bbbbb'', msg ''user'' ''c'']
      \<le> maxEstimatedTokens (exampleSettings None None)
   \<and> truncateHistory (exampleSettings None None)
        [msg ''user'' ''aaaaaaaaa'', msg ''assistant'' ''bbbbb'', msg ''user'' ''c'']
      = [msg ''user'' ''aaaaaaaaa'', msg ''assistant'' ''bbbbb'', msg ''user'' ''c'']
   \<and> totalTokens (truncateHistory (exampleSettings (Some 2) (Some 3))
        [msg ''user'' ''aaaaaaaaa'', msg ''assistant'' ''bbbbb'', msg ''user'' ''c'']) \<le> 3"
  using truncateHistory_window [of "[msg ''user'' ''aaaaaaaaa'', msg ''assistant'' ''bbbbb'', msg ''user'' ''c'']"
          "exampleSettings None None"]
        truncateHistory_window [of "[msg ''user'' ''aaaaaaaaa'', msg ''assistant'' ''bbbbb'', msg ''user'' ''c'']"
          "exampleSettings (Some 2) (Some 3)"]
  by (simp add: exampleSettings_def msg_def maxContextMessages_def maxEstimatedTokens_def
      orDefault_def totalTokens_def estimateTokens_def CHARS_PER_TOKEN_ESTIMATE_def
      DEFAULT_GEMINI_MAX_CONTEXT_MESSAGES_def DEFAULT_GEMINI_MAX_ESTIMATED_TOKENS_def)

text \<open>
  The claim as it is written fails for a negative setting: \<open>parseInt('-1') || 20\<close> is
  \<open>-1\<close>, the loop breaks at once and the empty list has more than \<open>-1\<close> messages.
\<close>

theorem truncateHistory_negative_limit:
  "truncateHistory (exampleSettings (Some (-1)) None) [msg ''user'' ''hello''] = []
   \<and> \<not> int (length (truncateHistory (exampleSettings (Some (-1)) None) [msg ''user'' ''hello'']))
        \<le> maxContextMessages (exampleSettings (Some (-1)) None)"
  by (simp add: example_settings_defs)


subsection \<open>Retry loop\<close>

lemma startsWith_append: "startsWith (p @ s) p"
  by (induction p) auto

lemma strIncludes_prefix: "strIncludes (p @ s) p"
proof (cases "p @ s")
  case Nil
  then show ?thesis by simp
next
  case (Cons c cs)
  have "startsWith (p @ s) p" by (rule startsWith_append)
  then show ?thesis using Cons by (metis strIncludes.simps(2))
qed

lemma strIncludes_append_left: "strIncludes b p \<Longrightarrow> strIncludes (a @ b) p"
  by (induction a) auto

lemma strIncludes_middle: "strIncludes (a @ p @ b) p"
  by (rule strIncludes_append_left) (rule strIncludes_prefix)

lemma decimal_429: "decimal 429 = ''429''"
  by code_simp

lemma toLowerCase_append: "toLowerCase (a @ b) = toLowerCase a @ toLowerCase b"
  by (simp add: toLowerCase_def)

lemma toLowerCase_429: "toLowerCase ''429'' = ''429''"
  by (simp add: toLowerCase_def toLowerChar_def)

lemma isRateLimitError_429: "isRateLimitError (apiError 429 errorText)"
proof -
  have "toLowerCase (''Gemini API error: '' @ decimal 429 @ '' - '' @ errorText)
      = toLowerCase ''Gemini API error: '' @ ''429'' @ toLowerCase ('' - '' @ errorText)"
    by (simp only: toLowerCase_append decimal_429 toLowerCase_429)
  then have "strIncludes (toLowerCase (''Gemini API error: '' @ decimal 429 @ '' - '' @ errorText)) ''429''"
    by (simp only: strIncludes_middle)
  then show ?thesis
    by (simp add: isRateLimitError_def apiError_def Let_def)
qed

lemma sendRequest_fields [simp]:
  "events (sendRequest env contents w) = events w"
  "lastRequestTime (sendRequest env contents w) = lastRequestTime w"
  "waits (sendRequest env contents w) = waits w"
  "requests (sendRequest env contents w) = requests w @ [(clock w, contents)]"
  "clock (sendRequest env contents w) = clock w + max 0 (fetchLatency env (length (requests w)))"
  by (simp_all add: sendRequest_def)

lemma sleep_fields [simp]:
  "events (sleep d w) = events w"
  "lastRequestTime (sleep d w) = lastRequestTime w"
  "requests (sleep d w) = requests w"
  "waits (sleep d w) = waits w @ [d]"
  "clock (sleep d w) = clock w + timerDuration d"
  by (simp_all add: sleep_def)

lemma retryLoop_frame:
  "events (snd (retryLoop env mdl maxAttempts baseDelayMs contents attempt w)) = events w
   \<and> lastRequestTime (snd (retryLoop env mdl maxAttempts baseDelayMs contents attempt w)) = lastRequestTime w"
proof (induction env mdl maxAttempts baseDelayMs contents attempt w rule: retryLoop.induct)
  case (1 env mdl maxAttempts baseDelayMs contents attempt w)
  show ?case
  proof (cases "int attempt < maxAttempts")
    case False
    then show ?thesis by (simp add: retryLoop.simps)
  next
    case True
    show ?thesis
    proof (cases "attemptBody (jsonParse env) mdl maxAttempts baseDelayMs
                    (random env (length (requests w))) attempt (fetchOutcome env (length (requests w)))")
      case (Return r)
      then show ?thesis using True by (simp add: retryLoop.simps[of _ _ _ _ _ attempt w] Let_def)
    next
      case (Throw e)
      then show ?thesis using True by (simp add: retryLoop.simps[of _ _ _ _ _ attempt w] Let_def)
    next
      case (Retry d)
      then show ?thesis
        using True "1.IH"[OF True refl refl Retry]
        by (simp add: retryLoop.simps[of _ _ _ _ _ attempt w] Let_def)
    qed
  qed
qed

lemma retryLoop_requests:
  "\<exists>new. requests (snd (retryLoop env mdl maxAttempts baseDelayMs contents attempt w)) = requests w @ new
         \<and> int (length new) \<le> max 0 (maxAttempts - int attempt)"
proof (induction env mdl maxAttempts baseDelayMs contents attempt w rule: retryLoop.induct)
  case (1 env mdl maxAttempts baseDelayMs contents attempt w)
  show ?case
  proof (cases "int attempt < maxAttempts")
    case False
    then show ?thesis by (simp add: retryLoop.simps)
  next
    case True
    show ?thesis
    proof (cases "attemptBody (jsonParse env) mdl maxAttempts baseDelayMs
                    (random env (length (requests w))) attempt (fetchOutcome env (length (requests w)))")
      case (Return r)
      then show ?thesis using True by (simp add: retryLoop.simps[of _ _ _ _ _ attempt w] Let_def)
    next
      case (Throw e)
      then show ?thesis using True by (simp add: retryLoop.simps[of _ _ _ _ _ attempt w] Let_def)
    next
      case (Retry d)
      from "1.IH"[OF True refl refl Retry] obtain new where
        n: "requests (snd (retryLoop env mdl maxAttempts baseDelayMs contents (Suc attempt)
               (sleep d (sendRequest env contents w)))) = (requests w @ [(clock w, contents)]) @ new"
        and l: "int (length new) \<le> max 0 (maxAttempts - int (Suc attempt))"
        by auto
      have "requests (snd (retryLoop env mdl maxAttempts baseDelayMs contents attempt w))
              = requests w @ ((clock w, contents) # new)"
        using True Retry n by (simp add: retryLoop.simps[of _ _ _ _ _ attempt w] Let_def)
      moreover have "int (length ((clock w, contents) # new)) \<le> max 0 (maxAttempts - int attempt)"
        using l True by auto
      ultimately show ?thesis by blast
    qed
  qed
qed

lemma attemptBody_Retry:
  assumes "attemptBody parse mdl maxAttempts base rnd attempt outcome = Retry delay"
  shows "int attempt < maxAttempts - 1 \<and> (\<exists>e. errorRaised outcome = Some e \<and> isRateLimitError e)"
  using assms isRateLimitError_429
  by (auto simp add: attemptBody_def catchBlock_def errorRaised_def
      split: fetchResult.splits sum.splits if_splits option.splits)

lemma attemptBody_Throw:
  assumes "errorRaised outcome = Some e"
      and "\<not> isRateLimitError e \<or> int attempt \<ge> maxAttempts - 1"
  shows "attemptBody parse mdl maxAttempts base rnd attempt outcome = Throw e"
  using assms isRateLimitError_429
  by (auto simp add: attemptBody_def catchBlock_def errorRaised_def
      split: fetchResult.splits sum.splits if_splits option.splits)

lemma retryLoop_Throw:
  assumes "int attempt < maxAttempts"
      and "attemptBody (jsonParse env) mdl maxAttempts base (random env (length (requests w))) attempt
             (fetchOutcome env (length (requests w))) = Throw e"
  shows "retryLoop env mdl maxAttempts base contents attempt w = (Inl e, sendRequest env contents w)"
  using assms by (simp add: retryLoop.simps[of _ _ _ _ _ attempt w] Let_def)

lemma retryLoop_Return:
  assumes "int attempt < maxAttempts"
      and "attemptBody (jsonParse env) mdl maxAttempts base (random env (length (requests w))) attempt
             (fetchOutcome env (length (requests w))) = Return r"
  shows "retryLoop env mdl maxAttempts base contents attempt w = (Inr r, sendRequest env contents w)"
  using assms by (simp add: retryLoop.simps[of _ _ _ _ _ attempt w] Let_def)

lemma retryLoop_Retry:
  assumes "int attempt < maxAttempts"
      and "attemptBody (jsonParse env) mdl maxAttempts base (random env (length (requests w))) attempt
             (fetchOutcome env (length (requests w))) = Retry d"
  shows "retryLoop env mdl maxAttempts base contents attempt w
          = retryLoop env mdl maxAttempts base contents (Suc attempt) (sleep d (sendRequest env contents w))"
  using assms by (simp add: retryLoop.simps[of _ _ _ _ _ attempt w] Let_def)

lemma retryLoop_exhausted:
  assumes "\<not> int attempt < maxAttempts"
  shows "retryLoop env mdl maxAttempts base contents attempt w
          = (Inl (JsError ''Error'' ''Gemini request failed after retries''), w)"
  using assms by (simp add: retryLoop.simps[of _ _ _ _ _ attempt w])

lemma retryLoop_second_request:
  assumes "int attempt < maxAttempts"
      and "length (requests (snd (retryLoop env mdl maxAttempts base contents attempt w)))
             > Suc (length (requests w))"
  shows "int attempt < maxAttempts - 1
         \<and> (\<exists>e. errorRaised (fetchOutcome env (length (requests w))) = Some e \<and> isRateLimitError e)"
proof (cases "attemptBody (jsonParse env) mdl maxAttempts base (random env (length (requests w))) attempt
                (fetchOutcome env (length (requests w)))")
  case (Return r)
  then show ?thesis using assms by (simp add: retryLoop_Return)
next
  case (Throw e)
  then show ?thesis using assms by (simp add: retryLoop_Throw)
next
  case (Retry d)
  then show ?thesis by (rule attemptBody_Retry)
qed

lemma decimal_500: "decimal 500 = ''500''"
  by code_simp

lemma boom_not_rate_limit: "\<not> isRateLimitError (apiError 500 ''boom'')"
  by (simp add: isRateLimitError_def apiError_def decimal_500 toLowerCase_def toLowerChar_def)

lemma busyThenBoom_run:
  "retryLoop (exampleEnv busyThenBoom noJson []) ''gemini-2.5-flash'' 5 5000 [] 0 exampleWorld
    = (Inl (apiError 500 ''boom''),
       \<lparr>clock = 1006150, lastRequestTime = 0, requests = [(1000000, []), (1005950, [])],
        waits = [Num 5750], events = []\<rparr>)"
  by (simp add: retryLoop.simps attemptBody_def catchBlock_def exampleEnv_def busyThenBoom_def noJson_def
      exampleWorld_def responseOk_def extractGeminiRetryDelay_def calculateBackoffDelay_def
      sendRequest_def sleep_def timerDuration_def boom_not_rate_limit Let_def)

text \<open>
  Claim C4, as the code has it. One call of \<open>queryGeminiMultiTurn\<close> adds at most
  \<open>maxAttempts\<close> requests to the ones sent before, and none when \<open>maxAttempts\<close> is
  negative. In the loop, a request is followed by another one only if it raised a
  rate limit error and was not the last attempt; a request that raises an error which is
  no rate limit error, or raises any error on the last attempt, ends the loop with that
  error thrown, and no further request is sent.
\<close>

theorem queryGeminiMultiTurn_retry_policy:
  "(\<exists>new. requests (snd (queryGeminiMultiTurn env settings config history w)) = requests w @ new
        \<and> int (length new) \<le> max 0 (retryMaxAttempts settings))
   \<and> (int attempt < maxAttempts
        \<and> length (requests (snd (retryLoop env mdl maxAttempts base contents attempt w0)))
             > Suc (length (requests w0))
       \<longrightarrow> int attempt < maxAttempts - 1
           \<and> (\<exists>e. errorRaised (fetchOutcome env (length (requests w0))) = Some e \<and> isRateLimitError e))
   \<and> (int attempt < maxAttempts
        \<and> errorRaised (fetchOutcome env (length (requests w0))) = Some error
        \<and> (\<not> isRateLimitError error \<or> int attempt = maxAttempts - 1)
       \<longrightarrow> retryLoop env mdl maxAttempts base contents attempt w0
             = (Inl error, sendRequest env contents w0))"
proof (intro conjI impI)
  obtain new where
    n: "requests (snd (retryLoop env (model config) (retryMaxAttempts settings) (retryBaseDelayMs settings)
          (conversationToGeminiContents (truncateHistory settings history)) 0
          (enforceRateLimitForModel (model config) (rateLimitingEnabled config) w)))
        = requests (enforceRateLimitForModel (model config) (rateLimitingEnabled config) w) @ new"
    and l: "int (length new) \<le> max 0 (retryMaxAttempts settings - int 0)"
    using retryLoop_requests by blast
  have "requests (enforceRateLimitForModel (model config) (rateLimitingEnabled config) w) = requests w"
    by (simp add: enforceRateLimitForModel_def Let_def)
  then show "\<exists>new. requests (snd (queryGeminiMultiTurn env settings config history w)) = requests w @ new
        \<and> int (length new) \<le> max 0 (retryMaxAttempts settings)"
    using n l by (auto simp add: queryGeminiMultiTurn_def Let_def)
next
  assume a: "int attempt < maxAttempts
        \<and> length (requests (snd (retryLoop env mdl maxAttempts base contents attempt w0)))
             > Suc (length (requests w0))"
  then show "int attempt < maxAttempts - 1" using retryLoop_second_request by blast
  from a show "\<exists>e. errorRaised (fetchOutcome env (length (requests w0))) = Some e \<and> isRateLimitError e"
    using retryLoop_second_request by blast
next
  assume a: "int attempt < maxAttempts
        \<and> errorRaised (fetchOutcome env (length (requests w0))) = Some error
        \<and> (\<not> isRateLimitError error \<or> int attempt = maxAttempts - 1)"
  then have "attemptBody (jsonParse env) mdl maxAttempts base (random env (length (requests w0))) attempt
               (fetchOutcome env (length (requests w0))) = Throw error"
    by (intro attemptBody_Throw) auto
  then show "retryLoop env mdl maxAttempts base contents attempt w0 = (Inl error, sendRequest env contents w0)"
    using a by (simp add: retryLoop_Throw)
qed

theorem queryGeminiMultiTurn_retry_policy_witness:
  "length (requests (snd (retryLoop (exampleEnv busyThenBoom noJson []) ''gemini-2.5-flash'' 5 5000 []
          0 exampleWorld))) > Suc (length (requests exampleWorld))
   \<and> (\<exists>e. errorRaised (fetchOutcome (exampleEnv busyThenBoom noJson []) (length (requests exampleWorld)))
             = Some e \<and> isRateLimitError e)
   \<and> errorRaised (fetchOutcome (exampleEnv busyThenBoom noJson [])
          (length (requests (exampleWorld\<lparr>requests := [(1000000, [])]\<rparr>))))
        = Some (apiError 500 ''boom'')
   \<and> \<not> isRateLimitError (apiError 500 ''boom'')
   \<and> retryLoop (exampleEnv busyThenBoom noJson []) ''gemini-2.5-flash'' 5 5000 [] 1
        (exampleWorld\<lparr>requests := [(1000000, [])]\<rparr>)
      = (Inl (apiError 500 ''boom''),
         sendRequest (exampleEnv busyThenBoom noJson []) [] (exampleWorld\<lparr>requests := [(1000000, [])]\<rparr>))"
proof -
  let ?E = "exampleEnv busyThenBoom noJson []"
  let ?W1 = "exampleWorld\<lparr>requests := [(1000000, [])]\<rparr>"
  have two: "length (requests (snd (retryLoop ?E ''gemini-2.5-flash'' 5 5000 [] 0 exampleWorld)))
               > Suc (length (requests exampleWorld))"
    unfolding busyThenBoom_run by (simp add: exampleWorld_def)
  have raised: "errorRaised (fetchOutcome ?E (length (requests ?W1))) = Some (apiError 500 ''boom'')"
    by (simp add: errorRaised_def exampleEnv_def busyThenBoom_def responseOk_def)
  have first: "\<exists>e. errorRaised (fetchOutcome ?E (length (requests exampleWorld))) = Some e
                 \<and> isRateLimitError e"
    using two queryGeminiMultiTurn_retry_policy
            [where env = ?E and attempt = 0 and maxAttempts = 5 and mdl = "''gemini-2.5-flash''"
               and base = 5000 and contents = "[]" and ?w0.0 = exampleWorld]
    by simp
  have second: "retryLoop ?E ''gemini-2.5-flash'' 5 5000 [] 1 ?W1
                  = (Inl (apiError 500 ''boom''), sendRequest ?E [] ?W1)"
    using raised boom_not_rate_limit queryGeminiMultiTurn_retry_policy
            [where env = ?E and attempt = 1 and maxAttempts = 5 and mdl = "''gemini-2.5-flash''"
               and base = 5000 and contents = "[]" and ?w0.0 = ?W1 and error = "apiError 500 ''boom''"]
    by simp
  show ?thesis using two first raised boom_not_rate_limit second by simp
qed

text \<open>
  The claim as it is written fails for a negative setting: \<open>parseInt('-1') || 5\<close> is
  \<open>-1\<close>, the loop is not entered, and no request is more than \<open>-1\<close> requests.
\<close>

theorem queryGeminiMultiTurn_negative_attempts:
  "fst (queryGeminiMultiTurn (exampleEnv busyThenBoom noJson []) (retrySettings (Some (-1)) None)
          exampleConfig [msg ''user'' ''hi''] exampleWorld)
     = Inl (JsError ''Error'' ''Gemini request failed after retries'')
   \<and> requests (snd (queryGeminiMultiTurn (exampleEnv busyThenBoom noJson []) (retrySettings (Some (-1)) None)
          exampleConfig [msg ''user'' ''hi''] exampleWorld)) = []
   \<and> \<not> int (length (requests (snd (queryGeminiMultiTurn (exampleEnv busyThenBoom noJson [])
          (retrySettings (Some (-1)) None) exampleConfig [msg ''user'' ''hi''] exampleWorld))))
        \<le> retryMaxAttempts (retrySettings (Some (-1)) None)"
  by (simp add: queryGeminiMultiTurn_def retryLoop_exhausted retrySettings_def retryMaxAttempts_def
      orDefault_def enforceRateLimitForModel_def exampleConfig_def exampleWorld_def minimumDelayMs_def
      rpmOf_def GEMINI_RPM_LIMITS_def Let_def)


subsection \<open>Retry delays\<close>








lemma suggestedDelayMs_32: "suggestedDelayMs ''32.083535778'' = Num 33084"
  by (simp add: suggestedDelayMs_def parseFloat_def isDigit_def digitsValue_def digitValue_def)

lemma suggestedDelayMs_dot: "suggestedDelayMs ''.'' = NaN"
  by (simp add: suggestedDelayMs_def parseFloat_def isDigit_def digitsValue_def digitValue_def)


lemma nullThenRetryInfo_run:
  "attemptBody (parseOnly nullThenRetryInfoText (errorPayload [JNull, retryInfo ''5s'']))
      ''gemini-2.5-flash'' 5 5000 0.5 0
      (Response 429 (Inr nullThenRetryInfoText) (Inl (JsError ''SyntaxError'' ''no json'')))
     = Retry (Num 5750)"
  by (simp add: attemptBody_def responseOk_def extractGeminiRetryDelay_def parseOnly_def
      errorPayload_def calculateBackoffDelay_def Let_def)


lemma parseFloat_32: "parseFloat ''32.083535778'' = Num (32083535778 / 1000000000)"
  by (simp add: parseFloat_def isDigit_def digitsValue_def digitValue_def)

lemma retryInfoText_run:
  "attemptBody (parseOnly retryInfoText (errorPayload [retryInfo ''32.083535778s'']))
      ''gemini-2.5-flash'' 5 5000 (1 / 2) 0
      (Response 429 (Inr retryInfoText) (Inl (JsError ''SyntaxError'' ''no json'')))
     = Retry (Num 33084)"
  by (simp add: attemptBody_def responseOk_def extractGeminiRetryDelay_def parseOnly_def
      errorPayload_def retryInfo_def retryInfoMatch_def matchRetryDelay_def isDigit_def
      suggestedDelayMs_def parseFloat_32 Let_def)




subsection \<open>Rate limit\<close>


lemma enforce_fields:
  "requests (enforceRateLimitForModel mdl enabled w) = requests w"
  "events (enforceRateLimitForModel mdl enabled w) = events w"
  by (simp_all add: enforceRateLimitForModel_def Let_def)





lemma default_retry_settings:
  "retryMaxAttempts (retrySettings None None) = 5"
  "retryBaseDelayMs (retrySettings None None) = 5000"
  by (simp_all add: retryMaxAttempts_def retryBaseDelayMs_def retrySettings_def orDefault_def
      DEFAULT_RETRY_MAX_ATTEMPTS_def DEFAULT_RETRY_BASE_DELAY_MS_def)





subsection \<open>Parsing the response\<close>



lemma queryGeminiMultiTurn_events:
  "events (snd (queryGeminiMultiTurn env settings config history w)) = events w"
proof -
  have "events (snd (queryGeminiMultiTurn env settings config history w))
          = events (enforceRateLimitForModel (model config) (rateLimitingEnabled config) w)"
    using retryLoop_frame by (simp add: queryGeminiMultiTurn_def Let_def)
  then show ?thesis by (simp add: enforce_fields)
qed

lemma queryGeminiMultiTurn_events':
  "queryGeminiMultiTurn env settings config history w = (r, w1) \<Longrightarrow> events w1 = events w"
  using queryGeminiMultiTurn_events [of env settings config history w] by simp


lemma exampleAgentSettings_config: "getGeminiConfig exampleAgentSettings = exampleConfig"
  by (simp add: getGeminiConfig_def exampleAgentSettings_def exampleConfig_def orElse_def
      validModels_def Let_def)

text \<open>A query whose first request is answered with a parsed response returns it.\<close>

lemma query_first_ok:
  assumes "fetchOutcome env (length (requests w)) = Response status textResult (Inr data)"
      and "responseOk status"
      and "0 < retryMaxAttempts settings"
  shows "queryGeminiMultiTurn env settings config history w
           = (Inr (parseGeminiResponse data (model config)),
              sendRequest env (conversationToGeminiContents (truncateHistory settings history))
                (enforceRateLimitForModel (model config) (rateLimitingEnabled config) w))"
proof -
  let ?w1 = "enforceRateLimitForModel (model config) (rateLimitingEnabled config) w"
  have "attemptBody (jsonParse env) (model config) (retryMaxAttempts settings) (retryBaseDelayMs settings)
          (random env (length (requests ?w1))) 0 (fetchOutcome env (length (requests ?w1)))
        = Return (parseGeminiResponse data (model config))"
    using assms by (simp add: enforce_fields attemptBody_def)
  moreover have "int 0 < retryMaxAttempts settings" using assms by simp
  ultimately show ?thesis
    by (simp add: queryGeminiMultiTurn_def Let_def retryLoop_Return)
qed

lemma thoughtResponse_parts:
  "firstCandidateParts thoughtResponse = [\<lparr>partText = Some ''planning'', partThought = Some True\<rparr>]"
  by (simp add: firstCandidateParts_def thoughtResponse_def)



subsection \<open>Memory session id\<close>

lemma pushMessage_fields [simp]:
  "memorySessionId (pushMessage r c s) = memorySessionId s"
  "conversationHistory (pushMessage r c s) = conversationHistory s @ [\<lparr>role = r, content = c\<rparr>]"
  "lastPromptNumber (pushMessage r c s) = lastPromptNumber s"
  by (simp_all add: pushMessage_def)

lemma trackTokens_fields [simp]:
  "memorySessionId (trackTokens response s) = memorySessionId s"
  "conversationHistory (trackTokens response s) = conversationHistory s"
  by (simp_all add: trackTokens_def Let_def)

lemma ensureMemorySessionId_assigns:
  "memorySessionId (fst (ensureMemorySessionId env s w)) \<noteq> None"
  "events (snd (ensureMemorySessionId env s w)) = events w @ [EvEnsureMemorySessionId]"
  "conversationHistory (fst (ensureMemorySessionId env s w)) = conversationHistory s"
  by (simp_all add: ensureMemorySessionId_def split: option.splits)

lemma handleResponse_frame:
  assumes "handleResponse env response s w = (outcome, s1, w1)"
  shows "memorySessionId s1 = memorySessionId s"
    and "events w1 = events w @ [EvProcessAgentResponse (resultContent response)]"
  using assms
  by (auto simp add: handleResponse_def processAgentResponse_def Let_def split: option.splits if_splits)

lemma processMessage_frame:
  assumes "processMessage env settings config message s w = (outcome, s1, w1)"
  shows "memorySessionId s1 = memorySessionId s"
    and "\<exists>more. events w1 = events w @ EvMessage message # more"
proof -
  have "memorySessionId s1 = memorySessionId s \<and> (\<exists>more. events w1 = events w @ EvMessage message # more)"
  proof (cases "messageType message = ''observation''")
    case True
    let ?s1 = "case prompt_number message of None \<Rightarrow> s | Some n \<Rightarrow> s\<lparr>lastPromptNumber := n\<rparr>"
    let ?w0 = "w\<lparr>events := events w @ [EvMessage message]\<rparr>"
    let ?s2 = "pushMessage ''user'' (buildObservationPrompt env message
                 (case earliestPendingTimestamp s of None \<Rightarrow> clock ?w0 | Some t \<Rightarrow> t)) ?s1"
    have m: "memorySessionId ?s2 = memorySessionId s" by (simp split: option.splits)
    obtain r wq where q: "queryGeminiMultiTurn env settings config (conversationHistory ?s2) ?w0 = (r, wq)"
      by (cases "queryGeminiMultiTurn env settings config (conversationHistory ?s2) ?w0")
    have e: "events wq = events w @ [EvMessage message]"
      using queryGeminiMultiTurn_events' [OF q] by simp
    show ?thesis
    proof (cases r)
      case (Inl error)
      then have "processMessage env settings config message s w = (Inl error, ?s2, wq)"
        using True q by (simp add: processMessage_def Let_def)
      then show ?thesis using assms m e by auto
    next
      case (Inr response)
      then have "processMessage env settings config message s w = handleResponse env response ?s2 wq"
        using True q by (simp add: processMessage_def Let_def)
      then have h: "handleResponse env response ?s2 wq = (outcome, s1, w1)" using assms by simp
      show ?thesis using handleResponse_frame [OF h] m e by simp
    qed
  next
    case False
    note notObs = False
    show ?thesis
    proof (cases "messageType message = ''summarize''")
      case True
      let ?w0 = "w\<lparr>events := events w @ [EvMessage message]\<rparr>"
      let ?s2 = "pushMessage ''user'' (buildSummaryPrompt env s message) s"
      have m: "memorySessionId ?s2 = memorySessionId s" by simp
      obtain r wq where q: "queryGeminiMultiTurn env settings config (conversationHistory ?s2) ?w0 = (r, wq)"
        by (cases "queryGeminiMultiTurn env settings config (conversationHistory ?s2) ?w0")
      have e: "events wq = events w @ [EvMessage message]"
        using queryGeminiMultiTurn_events' [OF q] by simp
      show ?thesis
      proof (cases r)
        case (Inl error)
        then have "processMessage env settings config message s w = (Inl error, ?s2, wq)"
          using True notObs q by (simp add: processMessage_def Let_def)
        then show ?thesis using assms m e by auto
      next
        case (Inr response)
        then have "processMessage env settings config message s w = handleResponse env response ?s2 wq"
          using True notObs q by (simp add: processMessage_def Let_def)
        then have h: "handleResponse env response ?s2 wq = (outcome, s1, w1)" using assms by simp
        show ?thesis using handleResponse_frame [OF h] m e by simp
      qed
    next
      case False
      then have "processMessage env settings config message s w
                   = (Inr (), s, w\<lparr>events := events w @ [EvMessage message]\<rparr>)"
        using notObs by (simp add: processMessage_def Let_def)
      then show ?thesis using assms by auto
    qed
  qed
  then show "memorySessionId s1 = memorySessionId s"
    and "\<exists>more. events w1 = events w @ EvMessage message # more" by auto
qed

lemma processMessages_frame:
  assumes "processMessages env settings config messages s w = (outcome, s1, w1)"
  shows "memorySessionId s1 = memorySessionId s \<and> (\<exists>more. events w1 = events w @ more)"
  using assms
proof (induction messages arbitrary: s w)
  case Nil
  then show ?case by (auto split: option.splits)
next
  case (Cons message rest)
  obtain o2 s2 w2 where p: "processMessage env settings config message s w = (o2, s2, w2)"
    by (cases "processMessage env settings config message s w") auto
  note f = processMessage_frame [OF p]
  show ?case
  proof (cases o2)
    case (Inl error)
    then have "processMessages env settings config (message # rest) s w = (Inl error, s2, w2)"
      using p by simp
    then show ?thesis using Cons.prems f by auto
  next
    case (Inr u)
    then have "processMessages env settings config (message # rest) s w
                 = processMessages env settings config rest s2 w2"
      using p by simp
    then have "processMessages env settings config rest s2 w2 = (outcome, s1, w1)"
      using Cons.prems by simp
    from Cons.IH [OF this] show ?thesis using f by auto
  qed
qed

lemma initTurn_thrown:
  assumes "queryGeminiMultiTurn env settings config
             (conversationHistory
                (pushMessage ''user''
                   (if lastPromptNumber session = 1 then buildInitPrompt env session
                    else buildContinuationPrompt env session) session)) w = (Inl error, w1)"
  shows "initTurn env settings config session w
           = (Inl error,
              pushMessage ''user''
                (if lastPromptNumber session = 1 then buildInitPrompt env session
                 else buildContinuationPrompt env session) session,
              w1)"
  using assms by (simp add: initTurn_def Let_def)

lemma initTurn_returned:
  assumes "queryGeminiMultiTurn env settings config
             (conversationHistory
                (pushMessage ''user''
                   (if lastPromptNumber session = 1 then buildInitPrompt env session
                    else buildContinuationPrompt env session) session)) w = (Inr response, w1)"
  shows "\<exists>outcome s2 w2 rest.
           initTurn env settings config session w = (outcome, s2, w2)
           \<and> memorySessionId s2 \<noteq> None
           \<and> events w2 = events w @ EvEnsureMemorySessionId # rest
           \<and> (\<forall>m. EvMessage m \<notin> set rest)"
proof -
  have e: "events w1 = events w" using queryGeminiMultiTurn_events' [OF assms] .
  show ?thesis
    using assms e
    by (auto simp add: initTurn_def Let_def ensureMemorySessionId_def processAgentResponse_def
        split: option.splits)
qed

text \<open>
  Claim C8. With an API key configured: when the init query throws, the \<open>try\<close> block
  ends there with that error, \<open>ensureMemorySessionId\<close> has not been called and the
  \<open>memorySessionId\<close> of the session is what it was. When the init query returns (with
  any content), \<open>ensureMemorySessionId\<close> is the first call logged, before the response
  processor and before any message of the queue; the session the message loop starts from
  has a \<open>memorySessionId\<close>, and so has the session at the end of the \<open>try\<close> block.
\<close>

theorem memorySessionId_before_messages:
  "apiKey (getGeminiConfig agentCfg) \<noteq> [] \<longrightarrow>
     (case queryGeminiMultiTurn env settings (getGeminiConfig agentCfg)
             (conversationHistory
                (pushMessage ''user''
                   (if lastPromptNumber session = 1 then buildInitPrompt env session
                    else buildContinuationPrompt env session) session)) w of
        (Inl error, w1) \<Rightarrow>
          tryBlock env settings agentCfg session w
            = (Inl error,
               pushMessage ''user''
                 (if lastPromptNumber session = 1 then buildInitPrompt env session
                  else buildContinuationPrompt env session) session,
               w1)
          \<and> memorySessionId (fst (snd (tryBlock env settings agentCfg session w)))
              = memorySessionId session
          \<and> events (snd (snd (tryBlock env settings agentCfg session w))) = events w
      | (Inr response, w1) \<Rightarrow>
          (\<exists>outcome s2 w2 rest.
              initTurn env settings (getGeminiConfig agentCfg) session w = (outcome, s2, w2)
              \<and> memorySessionId s2 \<noteq> None
              \<and> events w2 = events w @ EvEnsureMemorySessionId # rest
              \<and> (\<forall>m. EvMessage m \<notin> set rest)
              \<and> tryBlock env settings agentCfg session w
                  = (case outcome of
                       Inl e \<Rightarrow> (Inl e, s2, w2)
                     | Inr u \<Rightarrow> processMessages env settings (getGeminiConfig agentCfg)
                                 (pendingMessages env) s2 w2))
          \<and> memorySessionId (fst (snd (tryBlock env settings agentCfg session w))) \<noteq> None
          \<and> (\<exists>new. events (snd (snd (tryBlock env settings agentCfg session w)))
                      = events w @ EvEnsureMemorySessionId # new))"
proof
  assume k: "apiKey (getGeminiConfig agentCfg) \<noteq> []"
  let ?cfg = "getGeminiConfig agentCfg"
  let ?s0 = "pushMessage ''user''
                   (if lastPromptNumber session = 1 then buildInitPrompt env session
                    else buildContinuationPrompt env session) session"
  obtain r w1 where q: "queryGeminiMultiTurn env settings ?cfg (conversationHistory ?s0) w = (r, w1)"
    by (cases "queryGeminiMultiTurn env settings ?cfg (conversationHistory ?s0) w")
  show "case queryGeminiMultiTurn env settings ?cfg (conversationHistory ?s0) w of
        (Inl error, w1) \<Rightarrow>
          tryBlock env settings agentCfg session w = (Inl error, ?s0, w1)
          \<and> memorySessionId (fst (snd (tryBlock env settings agentCfg session w)))
              = memorySessionId session
          \<and> events (snd (snd (tryBlock env settings agentCfg session w))) = events w
      | (Inr response, w1) \<Rightarrow>
          (\<exists>outcome s2 w2 rest.
              initTurn env settings ?cfg session w = (outcome, s2, w2)
              \<and> memorySessionId s2 \<noteq> None
              \<and> events w2 = events w @ EvEnsureMemorySessionId # rest
              \<and> (\<forall>m. EvMessage m \<notin> set rest)
              \<and> tryBlock env settings agentCfg session w
                  = (case outcome of
                       Inl e \<Rightarrow> (Inl e, s2, w2)
                     | Inr u \<Rightarrow> processMessages env settings ?cfg (pendingMessages env) s2 w2))
          \<and> memorySessionId (fst (snd (tryBlock env settings agentCfg session w))) \<noteq> None
          \<and> (\<exists>new. events (snd (snd (tryBlock env settings agentCfg session w)))
                      = events w @ EvEnsureMemorySessionId # new)"
  proof (cases r)
    case (Inl error)
    have i: "initTurn env settings ?cfg session w = (Inl error, ?s0, w1)"
      using q Inl by (intro initTurn_thrown) simp
    have t: "tryBlock env settings agentCfg session w = (Inl error, ?s0, w1)"
      using k i by (simp add: tryBlock_def Let_def)
    have e: "events w1 = events w" using queryGeminiMultiTurn_events' [OF q] .
    show ?thesis using q Inl t e by simp
  next
    case (Inr response)
    have "\<exists>outcome s2 w2 rest.
           initTurn env settings ?cfg session w = (outcome, s2, w2)
           \<and> memorySessionId s2 \<noteq> None
           \<and> events w2 = events w @ EvEnsureMemorySessionId # rest
           \<and> (\<forall>m. EvMessage m \<notin> set rest)"
      using q Inr by (intro initTurn_returned) simp
    then obtain outcome s2 w2 rest where
      i: "initTurn env settings ?cfg session w = (outcome, s2, w2)"
      and m: "memorySessionId s2 \<noteq> None"
      and e: "events w2 = events w @ EvEnsureMemorySessionId # rest"
      and n: "\<forall>m. EvMessage m \<notin> set rest"
      by blast
    have t: "tryBlock env settings agentCfg session w
                  = (case outcome of
                       Inl e \<Rightarrow> (Inl e, s2, w2)
                     | Inr u \<Rightarrow> processMessages env settings ?cfg (pendingMessages env) s2 w2)"
      using k i by (simp add: tryBlock_def Let_def split: sum.splits)
    have f: "memorySessionId (fst (snd (tryBlock env settings agentCfg session w))) \<noteq> None
          \<and> (\<exists>new. events (snd (snd (tryBlock env settings agentCfg session w)))
                      = events w @ EvEnsureMemorySessionId # new)"
    proof (cases outcome)
      case (Inl err)
      then show ?thesis using t m e by simp
    next
      case (Inr u)
      obtain o3 s3 w3 where p: "processMessages env settings ?cfg (pendingMessages env) s2 w2 = (o3, s3, w3)"
        by (cases "processMessages env settings ?cfg (pendingMessages env) s2 w2") auto
      from processMessages_frame [OF p] obtain more where
        "memorySessionId s3 = memorySessionId s2" "events w3 = events w2 @ more" by blast
      then show ?thesis using t Inr p m e by simp
    qed
    show ?thesis using q Inr i m e n t f by auto
  qed
qed

lemma exampleEnv_fields:
  "pendingMessages (exampleEnv outcomes parse queue) = queue"
  "iteratorThrows (exampleEnv outcomes parse queue) = None"
  "processAgentResponseThrows (exampleEnv outcomes parse queue) t s = None"
  "fetchOutcome (exampleEnv outcomes parse queue) = outcomes"
  "jsonParse (exampleEnv outcomes parse queue) = parse"
  "newMemorySessionId (exampleEnv outcomes parse queue) = ''mem-1''"
  by (simp_all add: exampleEnv_def)

lemma thinkingOnly_query:
  "queryGeminiMultiTurn (exampleEnv thinkingOnly noJson queue) (retrySettings None None) config history w
     = (Inr \<lparr>resultContent = [], tokensUsed = None\<rparr>,
        sendRequest (exampleEnv thinkingOnly noJson queue)
          (conversationToGeminiContents (truncateHistory (retrySettings None None) history))
          (enforceRateLimitForModel (model config) (rateLimitingEnabled config) w))"
proof -
  have p: "parseGeminiResponse thoughtResponse mdl = \<lparr>resultContent = [], tokensUsed = None\<rparr>" for mdl
    by (simp add: parseGeminiResponse_def thoughtResponse_parts isContentPart_def Let_def)
  show ?thesis
    using p by (subst query_first_ok [where status = 200 and textResult = "Inr []" and data = thoughtResponse])
      (simp_all add: exampleEnv_def thinkingOnly_def responseOk_def default_retry_settings)
qed

lemma alwaysBoom_query:
  "queryGeminiMultiTurn (exampleEnv alwaysBoom noJson queue) (retrySettings None None) config history w
     = (Inl (apiError 500 ''boom''),
        sendRequest (exampleEnv alwaysBoom noJson queue)
          (conversationToGeminiContents (truncateHistory (retrySettings None None) history))
          (enforceRateLimitForModel (model config) (rateLimitingEnabled config) w))"
proof -
  let ?E = "exampleEnv alwaysBoom noJson queue"
  let ?w1 = "enforceRateLimitForModel (model config) (rateLimitingEnabled config) w"
  have "errorRaised (fetchOutcome ?E (length (requests ?w1))) = Some (apiError 500 ''boom'')"
    by (simp add: errorRaised_def exampleEnv_def alwaysBoom_def responseOk_def)
  then have "attemptBody (jsonParse ?E) (model config) 5 5000 (random ?E (length (requests ?w1))) 0
          (fetchOutcome ?E (length (requests ?w1))) = Throw (apiError 500 ''boom'')"
    using boom_not_rate_limit by (intro attemptBody_Throw) auto
  then show ?thesis
    by (simp add: queryGeminiMultiTurn_def Let_def default_retry_settings retryLoop_Throw)
qed

theorem memorySessionId_before_messages_witness:
  "apiKey (getGeminiConfig exampleAgentSettings) \<noteq> []
   \<and> fst (tryBlock (exampleEnv alwaysBoom noJson [observationMessage]) (retrySettings None None)
            exampleAgentSettings exampleSession exampleWorld) = Inl (apiError 500 ''boom'')
   \<and> memorySessionId (fst (snd (tryBlock (exampleEnv alwaysBoom noJson [observationMessage])
            (retrySettings None None) exampleAgentSettings exampleSession exampleWorld))) = None
   \<and> events (snd (snd (tryBlock (exampleEnv alwaysBoom noJson [observationMessage])
            (retrySettings None None) exampleAgentSettings exampleSession exampleWorld))) = []
   \<and> memorySessionId (fst (snd (tryBlock (exampleEnv thinkingOnly noJson [observationMessage])
            (retrySettings None None) exampleAgentSettings exampleSession exampleWorld))) \<noteq> None
   \<and> (\<exists>new. events (snd (snd (tryBlock (exampleEnv thinkingOnly noJson [observationMessage])
            (retrySettings None None) exampleAgentSettings exampleSession exampleWorld)))
          = events exampleWorld @ EvEnsureMemorySessionId # new)
   \<and> events (snd (snd (tryBlock (exampleEnv thinkingOnly noJson [observationMessage])
            (retrySettings None None) exampleAgentSettings exampleSession exampleWorld)))
       = [EvEnsureMemorySessionId, EvMessage observationMessage, EvProcessAgentResponse []]"
proof -
  let ?B = "exampleEnv alwaysBoom noJson [observationMessage]"
  let ?T = "exampleEnv thinkingOnly noJson [observationMessage]"
  let ?S = "retrySettings None None"
  have k: "apiKey (getGeminiConfig exampleAgentSettings) \<noteq> []"
    by (simp add: exampleAgentSettings_config exampleConfig_def)
  have b: "fst (tryBlock ?B ?S exampleAgentSettings exampleSession exampleWorld) = Inl (apiError 500 ''boom'')
     \<and> memorySessionId (fst (snd (tryBlock ?B ?S exampleAgentSettings exampleSession exampleWorld)))
         = memorySessionId exampleSession
     \<and> events (snd (snd (tryBlock ?B ?S exampleAgentSettings exampleSession exampleWorld)))
         = events exampleWorld"
    using k memorySessionId_before_messages [where agentCfg = exampleAgentSettings and env = ?B
        and settings = ?S and session = exampleSession and w = exampleWorld]
    by (simp add: alwaysBoom_query enforce_fields)
  have t: "memorySessionId (fst (snd (tryBlock ?T ?S exampleAgentSettings exampleSession exampleWorld))) \<noteq> None
     \<and> (\<exists>new. events (snd (snd (tryBlock ?T ?S exampleAgentSettings exampleSession exampleWorld)))
          = events exampleWorld @ EvEnsureMemorySessionId # new)"
    using k memorySessionId_before_messages [where agentCfg = exampleAgentSettings and env = ?T
        and settings = ?S and session = exampleSession and w = exampleWorld]
    by (simp add: thinkingOnly_query enforce_fields)
  have ev: "events (snd (snd (tryBlock ?T ?S exampleAgentSettings exampleSession exampleWorld)))
       = [EvEnsureMemorySessionId, EvMessage observationMessage, EvProcessAgentResponse []]"
    using k
    by (simp add: tryBlock_def initTurn_def processMessage_def handleResponse_def processAgentResponse_def
        ensureMemorySessionId_def thinkingOnly_query enforce_fields Let_def observationMessage_def
        exampleEnv_fields exampleWorld_def)
  show ?thesis using k b t ev by (simp add: exampleSession_def exampleWorld_def)
qed


subsection \<open>Fallback and cancellation\<close>

text \<open>
  When every request from now to the last attempt is answered with 429, the loop sends
  all of them and throws the error of the last one.
\<close>

lemma retryLoop_all_429:
  assumes "int attempt < maxAttempts"
      and "\<forall>n. length (requests w) \<le> n \<and> n < length (requests w) + nat (maxAttempts - int attempt)
              \<longrightarrow> (\<exists>t r. fetchOutcome env n = Response 429 (Inr t) r)"
  shows "\<exists>t w'. retryLoop env mdl maxAttempts base contents attempt w = (Inl (apiError 429 t), w')
           \<and> length (requests w') = length (requests w) + nat (maxAttempts - int attempt)"
  using assms
proof (induction env mdl maxAttempts base contents attempt w rule: retryLoop.induct)
  case (1 env mdl maxAttempts base contents attempt w)
  let ?n = "length (requests w)"
  have "?n \<le> ?n \<and> ?n < ?n + nat (maxAttempts - int attempt)" using "1.prems"(1) by simp
  then obtain t r where o: "fetchOutcome env ?n = Response 429 (Inr t) r"
    using "1.prems"(2) by blast
  show ?case
  proof (cases "int attempt < maxAttempts - 1")
    case False
    then have last: "int attempt = maxAttempts - 1" using "1.prems"(1) by simp
    have "errorRaised (fetchOutcome env ?n) = Some (apiError 429 t)"
      using o by (simp add: errorRaised_def responseOk_def)
    then have "attemptBody (jsonParse env) mdl maxAttempts base (random env ?n) attempt (fetchOutcome env ?n)
                 = Throw (apiError 429 t)"
      using last by (intro attemptBody_Throw) auto
    then have "retryLoop env mdl maxAttempts base contents attempt w
                 = (Inl (apiError 429 t), sendRequest env contents w)"
      using "1.prems"(1) by (rule retryLoop_Throw [rotated])
    moreover have "length (requests (sendRequest env contents w)) = ?n + nat (maxAttempts - int attempt)"
      using last by simp
    ultimately show ?thesis by blast
  next
    case True
    have "\<exists>d. attemptBody (jsonParse env) mdl maxAttempts base (random env ?n) attempt
                         (fetchOutcome env ?n) = Retry d"
      using o True by (cases "extractGeminiRetryDelay (jsonParse env) t")
        (simp_all add: attemptBody_def responseOk_def)
    then obtain d where b: "attemptBody (jsonParse env) mdl maxAttempts base (random env ?n) attempt
                         (fetchOutcome env ?n) = Retry d"
      by blast
    let ?w2 = "sleep d (sendRequest env contents w)"
    have step: "retryLoop env mdl maxAttempts base contents attempt w
                  = retryLoop env mdl maxAttempts base contents (Suc attempt) ?w2"
      using "1.prems"(1) b by (rule retryLoop_Retry)
    have l2: "length (requests ?w2) = Suc ?n" by simp
    have "\<exists>t w'. retryLoop env mdl maxAttempts base contents (Suc attempt) ?w2 = (Inl (apiError 429 t), w')
           \<and> length (requests w') = length (requests ?w2) + nat (maxAttempts - int (Suc attempt))"
    proof (rule "1.IH" [OF "1.prems"(1) refl refl b])
      show "int (Suc attempt) < maxAttempts" using True by simp
      show "\<forall>n. length (requests ?w2) \<le> n
                 \<and> n < length (requests ?w2) + nat (maxAttempts - int (Suc attempt))
              \<longrightarrow> (\<exists>t r. fetchOutcome env n = Response 429 (Inr t) r)"
      proof (intro allI impI)
        fix n
        assume "length (requests ?w2) \<le> n
                 \<and> n < length (requests ?w2) + nat (maxAttempts - int (Suc attempt))"
        then have "?n \<le> n \<and> n < ?n + nat (maxAttempts - int attempt)"
          using True l2 by auto
        then show "\<exists>t r. fetchOutcome env n = Response 429 (Inr t) r"
          using "1.prems"(2) by blast
      qed
    qed
    then obtain t' w' where
      r: "retryLoop env mdl maxAttempts base contents (Suc attempt) ?w2 = (Inl (apiError 429 t'), w')"
      and l: "length (requests w') = length (requests ?w2) + nat (maxAttempts - int (Suc attempt))"
      by blast
    have "length (requests w') = ?n + nat (maxAttempts - int attempt)"
      using l l2 True by auto
    then show ?thesis using step r by auto
  qed
qed

lemma query_all_429:
  assumes "0 < retryMaxAttempts settings"
      and "\<forall>n. length (requests w) \<le> n \<and> n < length (requests w) + nat (retryMaxAttempts settings)
              \<longrightarrow> (\<exists>t r. fetchOutcome env n = Response 429 (Inr t) r)"
  shows "\<exists>t w'. queryGeminiMultiTurn env settings config history w = (Inl (apiError 429 t), w')
           \<and> length (requests w') = length (requests w) + nat (retryMaxAttempts settings)"
proof -
  let ?w1 = "enforceRateLimitForModel (model config) (rateLimitingEnabled config) w"
  have "\<exists>t w'. retryLoop env (model config) (retryMaxAttempts settings) (retryBaseDelayMs settings)
                  (conversationToGeminiContents (truncateHistory settings history)) 0 ?w1
                = (Inl (apiError 429 t), w')
           \<and> length (requests w') = length (requests ?w1) + nat (retryMaxAttempts settings - int 0)"
    using assms by (intro retryLoop_all_429) (simp_all add: enforce_fields)
  then show ?thesis by (simp add: queryGeminiMultiTurn_def Let_def enforce_fields)
qed

lemma initTurn_history:
  assumes "queryGeminiMultiTurn env settings config
             (conversationHistory
                (pushMessage ''user''
                   (if lastPromptNumber session = 1 then buildInitPrompt env session
                    else buildContinuationPrompt env session) session)) w = (Inl error, w1)"
      and "apiKey (getGeminiConfig agentCfg) \<noteq> []" and "config = getGeminiConfig agentCfg"
  shows "tryBlock env settings agentCfg session w
           = (Inl error,
              pushMessage ''user''
                (if lastPromptNumber session = 1 then buildInitPrompt env session
                 else buildContinuationPrompt env session) session,
              w1)"
  using assms initTurn_thrown [OF assms(1)] by (simp add: tryBlock_def Let_def)

text \<open>
  Claim C2. When the \<open>try\<close> block of \<open>startSession\<close> ends with an error that is no abort
  error and that \<open>shouldFallbackToClaude\<close> accepts under the fallback setting, and a
  fallback agent has been set, the result is the result of the fallback agent's
  \<open>startSession\<close> on the session as it is at that moment, conversation history included.
  In particular, with an API key and five attempts configured, five responses 429 in a
  row to the init query end the \<open>try\<close> block with the error of the fifth, after five
  requests, with the session holding the history it had plus the init prompt.
\<close>

theorem fallback_keeps_session:
  "(tryBlock env settings agentCfg session w = (Inl error, s1, w1)
      \<and> \<not> isAbortError env error
      \<and> shouldFallbackToClaude env error (CLAUDE_MEM_DISABLE_CLAUDE_FALLBACK agentCfg \<noteq> Some ''false'')
     \<longrightarrow> startSession env settings agentCfg (setFallbackAgent agent this) session w
           = (FellBack (agent s1 w1), s1, w1))
   \<and> (apiKey (getGeminiConfig agentCfg) \<noteq> [] \<and> retryMaxAttempts settings = 5
      \<and> (\<forall>n. length (requests w) \<le> n \<and> n < length (requests w) + 5
             \<longrightarrow> (\<exists>t r. fetchOutcome env n = Response 429 (Inr t) r))
     \<longrightarrow> (\<exists>t w1. tryBlock env settings agentCfg session w
                    = (Inl (apiError 429 t),
                       session\<lparr>conversationHistory := conversationHistory session
                          @ [\<lparr>role = ''user'',
                              content = (if lastPromptNumber session = 1 then buildInitPrompt env session
                                         else buildContinuationPrompt env session)\<rparr>]\<rparr>,
                       w1)
                 \<and> length (requests w1) = length (requests w) + 5))"
proof (intro conjI impI)
  assume "tryBlock env settings agentCfg session w = (Inl error, s1, w1)
      \<and> \<not> isAbortError env error
      \<and> shouldFallbackToClaude env error (CLAUDE_MEM_DISABLE_CLAUDE_FALLBACK agentCfg \<noteq> Some ''false'')"
  then show "startSession env settings agentCfg (setFallbackAgent agent this) session w
           = (FellBack (agent s1 w1), s1, w1)"
    by (simp add: startSession_def catchSessionError_def setFallbackAgent_def Let_def)
next
  assume a: "apiKey (getGeminiConfig agentCfg) \<noteq> [] \<and> retryMaxAttempts settings = 5
      \<and> (\<forall>n. length (requests w) \<le> n \<and> n < length (requests w) + 5
             \<longrightarrow> (\<exists>t r. fetchOutcome env n = Response 429 (Inr t) r))"
  let ?s0 = "pushMessage ''user''
                (if lastPromptNumber session = 1 then buildInitPrompt env session
                 else buildContinuationPrompt env session) session"
  have "\<exists>t w'. queryGeminiMultiTurn env settings (getGeminiConfig agentCfg) (conversationHistory ?s0) w
                 = (Inl (apiError 429 t), w')
           \<and> length (requests w') = length (requests w) + nat (retryMaxAttempts settings)"
    using a by (intro query_all_429) auto
  then obtain t w' where
    q: "queryGeminiMultiTurn env settings (getGeminiConfig agentCfg) (conversationHistory ?s0) w
          = (Inl (apiError 429 t), w')"
    and l: "length (requests w') = length (requests w) + 5"
    using a by auto
  have "tryBlock env settings agentCfg session w = (Inl (apiError 429 t), ?s0, w')"
    using q a by (intro initTurn_history) auto
  then show "\<exists>t w1. tryBlock env settings agentCfg session w
                    = (Inl (apiError 429 t),
                       session\<lparr>conversationHistory := conversationHistory session
                          @ [\<lparr>role = ''user'',
                              content = (if lastPromptNumber session = 1 then buildInitPrompt env session
                                         else buildContinuationPrompt env session)\<rparr>]\<rparr>,
                       w1)
                 \<and> length (requests w1) = length (requests w) + 5"
    using l by (auto simp add: pushMessage_def)
qed

lemma mentions_429: "strIncludes (errorMessage (apiError 429 t)) ''429''"
  by (simp only: apiError_def thrown.sel decimal_429 strIncludes_middle)

theorem fallback_keeps_session_witness:
  "apiKey (getGeminiConfig exampleAgentSettings) \<noteq> []
   \<and> retryMaxAttempts (retrySettings None None) = 5
   \<and> (\<exists>t r. fetchOutcome (exampleEnv alwaysBusy noJson []) 4 = Response 429 (Inr t) r)
   \<and> startSession (exampleEnv alwaysBusy noJson []) (retrySettings None None) exampleAgentSettings
        (setFallbackAgent countingAgent \<lparr>fallbackAgent = None\<rparr>) exampleSession exampleWorld
       = (FellBack 1,
          snd (tryBlock (exampleEnv alwaysBusy noJson []) (retrySettings None None) exampleAgentSettings
                 exampleSession exampleWorld))
   \<and> conversationHistory (fst (snd (startSession (exampleEnv alwaysBusy noJson []) (retrySettings None None)
        exampleAgentSettings (setFallbackAgent countingAgent \<lparr>fallbackAgent = None\<rparr>) exampleSession
        exampleWorld)))
       = [msg ''user'' ''init: hi'']
   \<and> length (requests (snd (snd (startSession (exampleEnv alwaysBusy noJson []) (retrySettings None None)
        exampleAgentSettings (setFallbackAgent countingAgent \<lparr>fallbackAgent = None\<rparr>) exampleSession
        exampleWorld)))) = 5"
proof -
  let ?E = "exampleEnv alwaysBusy noJson []"
  let ?S = "retrySettings None None"
  let ?G = "setFallbackAgent countingAgent \<lparr>fallbackAgent = None\<rparr>"
  let ?s0 = "exampleSession\<lparr>conversationHistory := conversationHistory exampleSession
                          @ [\<lparr>role = ''user'',
                              content = (if lastPromptNumber exampleSession = 1 then buildInitPrompt ?E exampleSession
                                         else buildContinuationPrompt ?E exampleSession)\<rparr>]\<rparr>"
  have k: "apiKey (getGeminiConfig exampleAgentSettings) \<noteq> []"
    by (simp add: exampleAgentSettings_config exampleConfig_def)
  have m: "retryMaxAttempts ?S = 5" by (simp add: default_retry_settings)
  have o: "\<exists>t r. fetchOutcome ?E n = Response 429 (Inr t) r" for n
    by (simp add: exampleEnv_fields alwaysBusy_def)
  have "\<exists>t w1. tryBlock ?E ?S exampleAgentSettings exampleSession exampleWorld
                  = (Inl (apiError 429 t), ?s0, w1)
               \<and> length (requests w1) = length (requests exampleWorld) + 5"
    using k m o fallback_keeps_session [where env = ?E and settings = ?S and agentCfg = exampleAgentSettings
        and session = exampleSession and w = exampleWorld and agent = countingAgent
        and this = "\<lparr>fallbackAgent = None\<rparr>" and error = abortError and ?s1.0 = exampleSession
        and ?w1.0 = exampleWorld]
    by blast
  then obtain t w1 where
    t: "tryBlock ?E ?S exampleAgentSettings exampleSession exampleWorld = (Inl (apiError 429 t), ?s0, w1)"
    and l: "length (requests w1) = length (requests exampleWorld) + 5"
    by blast
  have na: "\<not> isAbortError ?E (apiError 429 t)"
    by (simp add: exampleEnv_def apiError_def)
  have sf: "shouldFallbackToClaude ?E (apiError 429 t)
              (CLAUDE_MEM_DISABLE_CLAUDE_FALLBACK exampleAgentSettings \<noteq> Some ''false'')"
    using mentions_429 [of t] by (simp add: exampleEnv_def exampleAgentSettings_def apiError_def)
  have s: "startSession ?E ?S exampleAgentSettings ?G exampleSession exampleWorld
             = (FellBack (countingAgent ?s0 w1), ?s0, w1)"
    using t na sf fallback_keeps_session [where env = ?E and settings = ?S and agentCfg = exampleAgentSettings
        and session = exampleSession and w = exampleWorld and agent = countingAgent
        and this = "\<lparr>fallbackAgent = None\<rparr>" and error = "apiError 429 t" and ?s1.0 = ?s0
        and ?w1.0 = w1]
    by blast
  have c: "countingAgent ?s0 w1 = 1" by (simp add: countingAgent_def exampleSession_def)
  have h: "conversationHistory ?s0 = [msg ''user'' ''init: hi'']"
    by (simp add: exampleSession_def exampleEnv_def msg_def)
  show ?thesis using k m o [of 4] s c h l t by (simp add: exampleWorld_def)
qed

text \<open>
  Claim C3. An error for which \<open>isAbortError\<close> holds is thrown again by the \<open>catch\<close>
  block of \<open>startSession\<close>, whatever the fallback setting says and whether or not a
  fallback agent is set: the fallback agent is not called.
\<close>

theorem abort_is_rethrown:
  "(isAbortError env error \<longrightarrow> catchSessionError env agentCfg this error s w = Threw error)
   \<and> (tryBlock env settings agentCfg session w = (Inl error, s1, w1) \<and> isAbortError env error
       \<longrightarrow> startSession env settings agentCfg this session w = (Threw error, s1, w1))"
  by (simp add: startSession_def catchSessionError_def)

theorem abort_is_rethrown_witness:
  "isAbortError abortedEnv abortError
   \<and> shouldFallbackToClaude abortedEnv abortError
        (CLAUDE_MEM_DISABLE_CLAUDE_FALLBACK exampleAgentSettings \<noteq> Some ''false'')
   \<and> fst (tryBlock abortedEnv (retrySettings None None) exampleAgentSettings exampleSession exampleWorld)
       = Inl abortError
   \<and> fst (startSession abortedEnv (retrySettings None None) exampleAgentSettings
        (setFallbackAgent countingAgent \<lparr>fallbackAgent = None\<rparr>) exampleSession exampleWorld)
       = Threw abortError"
proof -
  let ?S = "retrySettings None None"
  let ?G = "setFallbackAgent countingAgent \<lparr>fallbackAgent = None\<rparr>"
  have a: "isAbortError abortedEnv abortError"
    by (simp add: abortedEnv_def exampleEnv_def abortError_def)
  have f: "shouldFallbackToClaude abortedEnv abortError
        (CLAUDE_MEM_DISABLE_CLAUDE_FALLBACK exampleAgentSettings \<noteq> Some ''false'')"
    by (simp add: abortedEnv_def exampleEnv_def abortError_def exampleAgentSettings_def)
  have q: "queryGeminiMultiTurn abortedEnv ?S config history w
     = (Inr \<lparr>resultContent = [], tokensUsed = None\<rparr>,
        sendRequest abortedEnv
          (conversationToGeminiContents (truncateHistory ?S history))
          (enforceRateLimitForModel (model config) (rateLimitingEnabled config) w))" for config history w
  proof -
    have p: "parseGeminiResponse thoughtResponse mdl = \<lparr>resultContent = [], tokensUsed = None\<rparr>" for mdl
      by (simp add: parseGeminiResponse_def thoughtResponse_parts isContentPart_def Let_def)
    show ?thesis
      using p by (subst query_first_ok [where status = 200 and textResult = "Inr []" and data = thoughtResponse])
        (simp_all add: abortedEnv_def exampleEnv_def thinkingOnly_def responseOk_def default_retry_settings)
  qed
  have k: "apiKey (getGeminiConfig exampleAgentSettings) \<noteq> []"
    by (simp add: exampleAgentSettings_config exampleConfig_def)
  have fields: "pendingMessages abortedEnv = []" "iteratorThrows abortedEnv = Some abortError"
    by (simp_all add: abortedEnv_def exampleEnv_def)
  obtain s1 w1 where t: "tryBlock abortedEnv ?S exampleAgentSettings exampleSession exampleWorld
                           = (Inl abortError, s1, w1)"
    using k by (simp add: tryBlock_def initTurn_def q fields ensureMemorySessionId_def Let_def)
  have "startSession abortedEnv ?S exampleAgentSettings ?G exampleSession exampleWorld
          = (Threw abortError, s1, w1)"
    using t a abort_is_rethrown [where env = abortedEnv and error = abortError and settings = ?S
        and agentCfg = exampleAgentSettings and session = exampleSession and w = exampleWorld
        and this = ?G and ?s1.0 = s1 and ?w1.0 = w1 and s = s1]
    by blast
  then show ?thesis using a f t by simp
qed


subsection \<open>Spawn lock\<close>









end
